theory Spec2Isabelle
  imports Main "HOL-Library.Sublist"
begin

section \<open>JavaScript strings\<close>

text \<open>
  The generator assembles its output with string templates.  A JavaScript string is
  modelled as a \<^typ>\<open>string\<close>; every name that occurs in the metadata (model, field,
  type and enum names) is an identifier over ASCII letters, digits and the underscore,
  so one \<^typ>\<open>char\<close> stands for one code unit.  The operations below are the ones
  of \<^verbatim>\<open>String.prototype\<close> that the source calls.
\<close>

definition sq :: string where
  "sq = [CHR 0x27]"

definition crlf :: string where
  "crlf = [CHR 0x0D, CHR 0x0A]"

text \<open>\<^verbatim>\<open>s.indexOf(p)\<close>: the first position at which \<open>p\<close> occurs, \<open>None\<close> for -1.\<close>

fun js_indexOf :: "string \<Rightarrow> string \<Rightarrow> nat option" where
  "js_indexOf [] p = (if p = [] then Some 0 else None)"
| "js_indexOf (c # cs) p =
     (if prefix p (c # cs) then Some 0 else map_option Suc (js_indexOf cs p))"

definition js_includes :: "string \<Rightarrow> string \<Rightarrow> bool" where
  "js_includes s p = (js_indexOf s p \<noteq> None)"

definition js_endsWith :: "string \<Rightarrow> string \<Rightarrow> bool" where
  "js_endsWith s p = suffix p s"

text \<open>\<^verbatim>\<open>s.replace(pat, rep)\<close> with a string pattern replaces the first occurrence only.\<close>

definition js_replace :: "string \<Rightarrow> string \<Rightarrow> string \<Rightarrow> string" where
  "js_replace s pat rep =
     (case js_indexOf s pat of
        None \<Rightarrow> s
      | Some i \<Rightarrow> take i s @ rep @ drop (i + length pat) s)"

text \<open>\<^verbatim>\<open>xs.join(sep)\<close> on an array of strings.\<close>

fun js_join :: "string \<Rightarrow> string list \<Rightarrow> string" where
  "js_join sep [] = []"
| "js_join sep [x] = x"
| "js_join sep (x # y # ys) = x @ sep @ js_join sep (y # ys)"

text \<open>\<^verbatim>\<open>c.toUpperCase()\<close> on one code unit: the ASCII letters \<open>a\<close> to \<open>z\<close> are
  mapped to \<open>A\<close> to \<open>Z\<close>, every other ASCII character is left alone.\<close>

definition toUpperCase_char :: "char \<Rightarrow> char" where
  "toUpperCase_char c =
     (case map_of (zip ''abcdefghijklmnopqrstuvwxyz'' ''ABCDEFGHIJKLMNOPQRSTUVWXYZ'') c of
        Some u \<Rightarrow> u
      | None \<Rightarrow> c)"

text \<open>\<^verbatim>\<open>s.charAt(0).toUpperCase() + s.slice(1)\<close>; the empty string stays empty.\<close>

definition capitalize :: "string \<Rightarrow> string" where
  "capitalize s = (case s of [] \<Rightarrow> [] | c # cs \<Rightarrow> toUpperCase_char c # cs)"

text \<open>\<^verbatim>\<open>s.trim()\<close>, over the ASCII white space characters.\<close>

definition is_space :: "char \<Rightarrow> bool" where
  "is_space c = (c \<in> set [CHR 0x20, CHR 0x09, CHR 0x0A, CHR 0x0B, CHR 0x0C, CHR 0x0D])"

definition js_trim :: "string \<Rightarrow> string" where
  "js_trim s = rev (dropWhile is_space (rev (dropWhile is_space s)))"

definition dq :: string where
  "dq = [CHR 0x22]"

text \<open>\<^verbatim>\<open>s.split(c)\<close> for a separator of one character; the result is never empty.\<close>

fun js_split :: "char \<Rightarrow> string \<Rightarrow> string list" where
  "js_split c [] = [[]]"
| "js_split c (x # xs) =
     (if x = c then [] # js_split c xs
      else (case js_split c xs of
              [] \<Rightarrow> [[x]]
            | s # ss \<Rightarrow> (x # s) # ss))"

text \<open>\<^verbatim>\<open>JSON.stringify\<close> of an array of strings: each string is quoted, the quote, the
  backslash and the control characters are escaped, and the elements are separated by
  commas.\<close>

definition hex_digit :: "nat \<Rightarrow> char" where
  "hex_digit n = ''0123456789abcdef'' ! (n mod 16)"

definition json_escape_char :: "char \<Rightarrow> string" where
  "json_escape_char c =
     (if c = CHR 0x22 then [CHR 0x5C, CHR 0x22]
      else if c = CHR 0x5C then [CHR 0x5C, CHR 0x5C]
      else if c = CHR 0x08 then [CHR 0x5C, CHR ''b'']
      else if c = CHR 0x0C then [CHR 0x5C, CHR ''f'']
      else if c = CHR 0x0A then [CHR 0x5C, CHR ''n'']
      else if c = CHR 0x0D then [CHR 0x5C, CHR ''r'']
      else if c = CHR 0x09 then [CHR 0x5C, CHR ''t'']
      else if (of_char c :: nat) < 32 then
        [CHR 0x5C, CHR ''u'', CHR ''0'', CHR ''0'',
         hex_digit ((of_char c :: nat) div 16), hex_digit (of_char c)]
      else [c])"

definition json_string :: "string \<Rightarrow> string" where
  "json_string s = dq @ concat (map json_escape_char s) @ dq"

definition JSON_stringify :: "string list \<Rightarrow> string" where
  "JSON_stringify xs = ''['' @ js_join '','' (map json_string xs) @ '']''"

section \<open>Paths\<close>

text \<open>
  The functions of Node's \<^verbatim>\<open>path\<close> module that the transformer calls, in their POSIX
  form (\<^verbatim>\<open>path.sep\<close> is the slash).  \<^verbatim>\<open>path.normalize\<close> drops empty and \<^verbatim>\<open>.\<close>
  segments, resolves a \<^verbatim>\<open>..\<close> segment against the segment before it (and keeps it
  when there is none and the path is relative), and keeps a leading and a trailing
  slash.  \<^verbatim>\<open>path.join\<close> joins its non-empty arguments with a slash and normalizes.
\<close>

definition normalize_step :: "bool \<Rightarrow> string list \<Rightarrow> string \<Rightarrow> string list" where
  "normalize_step allowAboveRoot res seg =
     (if seg = [] \<or> seg = ''.'' then res
      else if seg = ''..'' then
        (if res \<noteq> [] \<and> last res \<noteq> ''..'' then butlast res
         else if allowAboveRoot then res @ [''..'']
         else res)
      else res @ [seg])"

definition normalizeString :: "string \<Rightarrow> bool \<Rightarrow> string" where
  "normalizeString p allowAboveRoot =
     js_join ''/'' (foldl (normalize_step allowAboveRoot) [] (js_split (CHR ''/'') p))"

definition path_normalize :: "string \<Rightarrow> string" where
  "path_normalize p =
     (if p = [] then ''.''
      else
        (let isAbsolute = (hd p = CHR ''/'');
             trailingSeparator = (last p = CHR ''/'');
             p' = normalizeString p (\<not> isAbsolute)
         in if p' = [] then
              (if isAbsolute then ''/'' else if trailingSeparator then ''./'' else ''.'')
            else
              (if isAbsolute then ''/'' else []) @ p' @ (if trailingSeparator then ''/'' else [])))"

definition path_join :: "string list \<Rightarrow> string" where
  "path_join args =
     (let joined = filter (\<lambda>arg. arg \<noteq> []) args
      in if joined = [] then ''.'' else path_normalize (js_join ''/'' joined))"

section \<open>Metadata\<close>

text \<open>The part of the DMMF that the generator reads: a schema argument (field) with
  its input types (alternatives), the models with their fields, the enums, the mapping
  of each model to its operations and the aggregate support.\<close>

datatype location = Scalar | InputObjectTypes | OutputObjectTypes | EnumTypes | FieldRefTypes

datatype namespace = NsModel | NsPrisma

record inputType =
  it_isList :: bool
  it_type :: string
  it_location :: location
  it_namespace :: "namespace option"

record schemaArg =
  arg_name :: string
  arg_isRequired :: bool
  arg_isNullable :: bool
  arg_inputTypes :: "inputType list"

record modelField =
  mf_name :: string
  mf_kind :: string
  mf_isList :: bool
  mf_type :: string
  mf_relationName :: "string option"

record model =
  m_name :: string
  m_fields :: "modelField list"

record constraints =
  maxNumFields :: "nat option"
  minNumFields :: "nat option"

record inputObjectType =
  iot_name :: string
  iot_constraints :: constraints
  iot_fields :: "schemaArg list"

record schemaEnum =
  en_name :: string
  en_values :: "string list"

text \<open>A model mapping names the operations a model supports; an operation that is absent
  is \<open>None\<close>.  The source tests the entries for truthiness, so the empty string counts
  as absent, too.\<close>

record modelMapping =
  mo_model :: string
  mo_findUnique :: "string option"
  mo_findFirst :: "string option"
  mo_findMany :: "string option"
  mo_createOne :: "string option"
  mo_createMany :: "string option"
  mo_deleteOne :: "string option"
  mo_updateOne :: "string option"
  mo_deleteMany :: "string option"
  mo_updateMany :: "string option"
  mo_upsertOne :: "string option"
  mo_aggregate :: "string option"
  mo_groupBy :: "string option"

definition truthy :: "string option \<Rightarrow> bool" where
  "truthy v = (case v of None \<Rightarrow> False | Some s \<Rightarrow> s \<noteq> [])"

record aggregateSupport =
  ag_count :: bool
  ag_min :: bool
  ag_max :: bool
  ag_avg :: bool
  ag_sum :: bool

section \<open>The transformer\<close>

text \<open>The instance fields of a \<^verbatim>\<open>Transformer\<close>.  The set of schema imports is a
  JavaScript \<^verbatim>\<open>Set\<close>, which keeps insertion order, so it is a list without
  repetitions.\<close>

record transformer =
  t_name :: string
  t_fields :: "schemaArg list"
  t_schemaImports :: "string list"
  t_models :: "model list"
  t_modelOperations :: "modelMapping list"
  t_aggregateOperationSupport :: "(string \<times> aggregateSupport) list"
  t_enumTypes :: "schemaEnum list"
  t_hasJson :: bool

text \<open>The static fields of the class: the generation context, set before any schema is
  generated.  The entries of \<^verbatim>\<open>prismaClientConfig\<close> that are read are
  \<^verbatim>\<open>moduleFormat\<close>, \<^verbatim>\<open>runtime\<close> and \<^verbatim>\<open>importFileExtension\<close>; \<open>None\<close> is
  \<^verbatim>\<open>undefined\<close>.\<close>

record statics =
  enumNames :: "string list"
  rawOpsMap :: "(string \<times> string) list"
  provider :: string
  previewFeatures :: "string list option"
  outputPath :: string
  prismaClientOutputPath :: string
  isCustomPrismaClientOutputPath :: bool
  prismaClientProvider :: string
  moduleFormat :: "string option"
  runtime :: "string option"
  importFileExtension :: "string option"
  isGenerateSelect :: bool
  isGenerateInclude :: bool

text \<open>Functions that the transformer imports and whose code is not among the sources:
  the helpers \<^verbatim>\<open>isMongodbRawOp\<close>, \<^verbatim>\<open>isAggregateInputType\<close> and
  \<^verbatim>\<open>checkIsModelRelationField\<close>, and Node's \<^verbatim>\<open>path.relative\<close>, whose result depends
  on the working directory of the process.  They are parameters of the model.\<close>

record externals =
  isMongodbRawOp :: "string \<Rightarrow> bool"
  isAggregateInputType :: "string \<Rightarrow> bool"
  checkIsModelRelationField :: "modelField \<Rightarrow> bool"
  path_relative :: "string \<Rightarrow> string \<Rightarrow> string"

datatype error = TypeError

text \<open>\<^verbatim>\<open>getSchemasPath\<close>\<close>

definition getSchemasPath :: "statics \<Rightarrow> string" where
  "getSchemasPath st =
     (let normalizedOutputPath = path_normalize (outputPath st);
          pathSegments = js_split (CHR ''/'') normalizedOutputPath;
          lastSegment = last pathSegments
      in if lastSegment = ''schemas'' then outputPath st
         else path_join [outputPath st, ''schemas''])"

section \<open>Helpers that are not among the sources\<close>

text \<open>Modelled from the spec: \<^verbatim>\<open>findModelByName\<close> of the helpers, which is not among the
  sources: the model of that name, if there is one (the spec, section 7: a missing model
  is fatal for the run).\<close>

definition findModelByName :: "model list \<Rightarrow> string \<Rightarrow> model option" where
  "findModelByName models modelName = find (\<lambda>m. m_name m = modelName) models"

text \<open>Modelled from the spec: \<^verbatim>\<open>checkModelHasModelRelation\<close> and
  \<^verbatim>\<open>checkModelHasManyModelRelation\<close> of \<^verbatim>\<open>model-helpers.ts\<close>, which is not among the
  sources.  The spec speaks of a model "with at least one relation field" and of a model
  that "has any to-many relation"; a to-many relation is a relation field that is
  list-valued.  The test for a single field, \<^verbatim>\<open>checkIsModelRelationField\<close>, is missing
  as well and is a parameter.\<close>

definition checkModelHasModelRelation :: "(modelField \<Rightarrow> bool) \<Rightarrow> model \<Rightarrow> bool" where
  "checkModelHasModelRelation isRelationField m = list_ex isRelationField (m_fields m)"

definition checkModelHasManyModelRelation :: "(modelField \<Rightarrow> bool) \<Rightarrow> model \<Rightarrow> bool" where
  "checkModelHasManyModelRelation isRelationField m =
     list_ex (\<lambda>modelField. isRelationField modelField \<and> mf_isList modelField) (m_fields m)"

section \<open>Object schema fields\<close>

definition wrapWithZodValidators :: "string \<Rightarrow> schemaArg \<Rightarrow> inputType \<Rightarrow> string" where
  "wrapWithZodValidators mainValidator field inputType =
     mainValidator
     @ (if it_isList inputType then ''.array()'' else [])
     @ (if \<not> arg_isRequired field then ''.optional()'' else [])"

definition addSchemaImport :: "transformer \<Rightarrow> string \<Rightarrow> transformer" where
  "addSchemaImport this n =
     (if n \<in> set (t_schemaImports this) then this
      else this\<lparr>t_schemaImports := t_schemaImports this @ [n]\<rparr>)"

text \<open>\<^verbatim>\<open>checkIsModelQueryType\<close>: \<open>Some (modelName, queryName)\<close> when the type name
  contains \<^verbatim>\<open>FindManyArgs\<close>, \<open>None\<close> for \<^verbatim>\<open>{ isModelQueryType: false }\<close>.\<close>

definition checkIsModelQueryType :: "string \<Rightarrow> (string \<times> string) option" where
  "checkIsModelQueryType ty =
     (case js_indexOf ty ''FindManyArgs'' of
        Some modelQueryTypeSuffixIndex \<Rightarrow> Some (take modelQueryTypeSuffixIndex ty, ''findMany'')
      | None \<Rightarrow> None)"

definition resolveModelQuerySchemaName :: "string \<Rightarrow> string \<Rightarrow> string" where
  "resolveModelQuerySchemaName modelName queryName =
     capitalize modelName @ capitalize queryName @ ''Schema''"

definition objectSchemaLine :: "inputType \<Rightarrow> string" where
  "objectSchemaLine inputType =
     (case checkIsModelQueryType (it_type inputType) of
        Some (modelName, queryName) \<Rightarrow> resolveModelQuerySchemaName modelName queryName
      | None \<Rightarrow> it_type inputType @ ''ObjectSchema'')"

definition generatePrismaStringLine ::
  "transformer \<Rightarrow> schemaArg \<Rightarrow> inputType \<Rightarrow> nat \<Rightarrow> string" where
  "generatePrismaStringLine this field inputType inputsLength =
     (let isEnum = (it_location inputType = EnumTypes);
          enumSchemaLine = it_type inputType @ ''Schema'';
          schema = (if it_type inputType = t_name this then objectSchemaLine inputType
                    else if isEnum then enumSchemaLine
                    else objectSchemaLine inputType);
          arr = (if it_isList inputType then ''.array()'' else []);
          opt = (if \<not> arg_isRequired field then ''.optional()'' else []);
          needsLazyLoading =
            (it_type inputType = t_name this
             \<or> (\<not> isEnum \<and> it_namespace inputType = Some NsPrisma))
      in if needsLazyLoading then
           (if inputsLength = 1
            then ''  '' @ arg_name field @ '': z.lazy(() => '' @ schema @ '')'' @ arr @ opt
            else ''z.lazy(() => '' @ schema @ '')'' @ arr @ opt)
         else
           (if inputsLength = 1
            then ''  '' @ arg_name field @ '': '' @ schema @ arr @ opt
            else schema @ arr @ opt))"

text \<open>The body of the \<^verbatim>\<open>reduce\<close> in \<^verbatim>\<open>generateObjectSchemaField\<close>: one input
  type is looked at, the alternative it resolves to (if any) is pushed onto the result,
  and the instance state is updated.\<close>

definition reduce_step ::
  "schemaArg \<Rightarrow> nat \<Rightarrow> string list \<times> transformer \<Rightarrow> inputType \<Rightarrow> string list \<times> transformer"
where
  "reduce_step field linesLength acc inputType =
     (case acc of (result, this) \<Rightarrow>
        if it_type inputType = ''String'' then
          (result @ [wrapWithZodValidators ''z.string()'' field inputType], this)
        else if it_type inputType = ''Int'' then
          (result @ [wrapWithZodValidators ''z.number().int()'' field inputType], this)
        else if it_type inputType = ''Float'' \<or> it_type inputType = ''Decimal'' then
          (result @ [wrapWithZodValidators ''z.number()'' field inputType], this)
        else if it_type inputType = ''BigInt'' then
          (result @ [wrapWithZodValidators ''z.bigint()'' field inputType], this)
        else if it_type inputType = ''Boolean'' then
          (result @ [wrapWithZodValidators ''z.boolean()'' field inputType], this)
        else if it_type inputType = ''DateTime'' then
          (result @ [wrapWithZodValidators ''z.coerce.date()'' field inputType], this)
        else if it_type inputType = ''Json'' then
          (result @ [wrapWithZodValidators ''jsonSchema'' field inputType],
           this\<lparr>t_hasJson := True\<rparr>)
        else if it_type inputType = ''True'' then
          (result @ [wrapWithZodValidators ''z.literal(true)'' field inputType], this)
        else if it_type inputType = ''Bytes'' then
          (result @ [wrapWithZodValidators ''z.instanceof(Uint8Array)'' field inputType], this)
        else
          (let isEnum = (it_location inputType = EnumTypes) in
           if it_namespace inputType = Some NsPrisma \<or> isEnum then
             (let this' = (if it_type inputType \<noteq> t_name this
                           then addSchemaImport this (it_type inputType) else this)
              in (result @ [generatePrismaStringLine this' field inputType linesLength], this'))
           else (result, this)))"

text \<open>\<^verbatim>\<open>generateObjectSchemaField\<close> returns the list of generated entries (none or
  one) together with the updated instance.\<close>

definition generateObjectSchemaField ::
  "transformer \<Rightarrow> schemaArg \<Rightarrow> (string \<times> schemaArg \<times> bool) list \<times> transformer" where
  "generateObjectSchemaField this field =
     (let lines = arg_inputTypes field in
      if length lines = 0 then ([], this)
      else
        (case foldl (reduce_step field (length lines)) ([], this) lines of
           (alternatives0, this') \<Rightarrow>
             if length alternatives0 = 0 then ([], this')
             else
               (let alternatives =
                      (if length alternatives0 > 1
                       then map (\<lambda>alter. js_replace alter ''.optional()'' []) alternatives0
                       else alternatives0);
                    fieldName =
                      (if list_ex (\<lambda>alt. js_includes alt '':'') alternatives then []
                       else ''  '' @ arg_name field @ '':'');
                    opt = (if \<not> arg_isRequired field then ''.optional()'' else []);
                    resString0 =
                      (if length alternatives = 1 then js_join ('','' @ crlf) alternatives
                       else ''z.union(['' @ js_join ('','' @ crlf) alternatives @ ''])'' @ opt);
                    resString =
                      (if arg_isNullable field then resString0 @ ''.nullable()'' else resString0)
                in ([(''  '' @ fieldName @ '' '' @ resString @ '' '', field, True)], this'))))"

definition generateFieldValidators :: "string \<Rightarrow> schemaArg \<Rightarrow> string" where
  "generateFieldValidators zodStringWithMainType field =
     zodStringWithMainType
     @ (if \<not> arg_isRequired field then ''.optional()'' else [])
     @ (if arg_isNullable field then ''.nullable()'' else [])"

text \<open>\<^verbatim>\<open>this.fields.map((field) => this.generateObjectSchemaField(field))\<close>: the fields
  are visited in order and each call sees the instance as the previous one left it.\<close>

fun map_generateObjectSchemaField ::
  "transformer \<Rightarrow> schemaArg list \<Rightarrow> (string \<times> schemaArg \<times> bool) list list \<times> transformer"
where
  "map_generateObjectSchemaField this [] = ([], this)"
| "map_generateObjectSchemaField this (field # rest) =
     (case generateObjectSchemaField this field of
        (item, this') \<Rightarrow>
          (case map_generateObjectSchemaField this' rest of
             (items, this'') \<Rightarrow> (item # items, this'')))"

definition generateObjectSchemaFields :: "transformer \<Rightarrow> string list \<times> transformer" where
  "generateObjectSchemaFields this =
     (case map_generateObjectSchemaField this (t_fields this) of
        (items, this') \<Rightarrow>
          (map (\<lambda>(zodStringWithMainType, field, skipValidators).
                  js_trim (if skipValidators then zodStringWithMainType
                           else generateFieldValidators zodStringWithMainType field))
               (concat items),
           this'))"

section \<open>Object schema text\<close>

definition generateImportZodStatement :: string where
  "generateImportZodStatement = ''import { z } from '' @ sq @ ''zod'' @ sq @ '';\<newline>''"

definition generateExportSchemaStatement :: "string \<Rightarrow> string \<Rightarrow> string" where
  "generateExportSchemaStatement name schema = ''export const '' @ name @ ''Schema = '' @ schema"

text \<open>\<^verbatim>\<open>name.replace(/^(MySQL|PostgreSQL|MongoDB|SQLite|SQLServer)/, '')\<close>: the first
  of the provider names that is a prefix of the name is removed.\<close>

fun strip_provider_prefix :: "string list \<Rightarrow> string \<Rightarrow> string" where
  "strip_provider_prefix [] name = name"
| "strip_provider_prefix (p # ps) name =
     (if prefix p name then drop (length p) name else strip_provider_prefix ps name)"

definition isPrismaTypeAvailable :: "string \<Rightarrow> bool" where
  "isPrismaTypeAvailable name =
     (if js_endsWith name ''ScalarFieldEnum'' then True
      else if js_endsWith name ''OrderByRelevanceFieldEnum'' then True
      else
        (let builtInTypes =
               [''JsonNullValueFilter'', ''JsonNullValueInput'', ''NullableJsonNullValueInput'',
                ''SortOrder'', ''NullsOrder'', ''QueryMode'', ''TransactionIsolationLevel'']
         in if name \<in> set builtInTypes then True
            else
              (let nameWithoutProvider =
                     strip_provider_prefix
                       [''MySQL'', ''PostgreSQL'', ''MongoDB'', ''SQLite'', ''SQLServer''] name;
                   basicTypes =
                     [''Filter'', ''Select'', ''Include'', ''WhereInput'',
                      ''OrderByWithRelationInput'', ''WhereUniqueInput'', ''CreateInput'',
                      ''UpdateInput'', ''UncheckedCreateInput'', ''UncheckedUpdateInput'',
                      ''InputEnvelope'', ''OperationsInput'', ''AggregatesInput'',
                      ''WithAggregationInput'', ''InputType'']
               in list_ex (\<lambda>ty. js_endsWith nameWithoutProvider ty) basicTypes)))"

definition hasComplexRelations :: "transformer \<Rightarrow> bool" where
  "hasComplexRelations this =
     list_ex (\<lambda>field.
        list_ex (\<lambda>inputType.
           it_location inputType \<noteq> EnumTypes
           \<and> it_namespace inputType = Some NsPrisma
           \<and> it_type inputType \<noteq> t_name this
           \<and> (js_includes (it_type inputType) ''CreateNestedOneWithout''
              \<or> js_includes (it_type inputType) ''CreateNestedManyWithout''
              \<or> js_includes (it_type inputType) ''WhereUniqueInput''
              \<or> js_includes (it_type inputType) ''CreateWithout''
              \<or> js_includes (it_type inputType) ''UncheckedCreateWithout''))
          (arg_inputTypes field))
       (t_fields this)"

text \<open>\<^verbatim>\<open>generateExportObjectSchemaStatement\<close>.  For a raw operation of MongoDB the name
  is looked up in \<^verbatim>\<open>rawOpsMap\<close>; when it is missing there, \<^verbatim>\<open>name.replace\<close> is called
  on \<^verbatim>\<open>undefined\<close> and throws.\<close>

definition generateExportObjectSchemaStatement ::
  "statics \<Rightarrow> externals \<Rightarrow> transformer \<Rightarrow> string \<Rightarrow> error + string" where
  "generateExportObjectSchemaStatement st ext this schema =
     (case (if provider st = ''mongodb'' \<and> isMongodbRawOp ext (t_name this) then
              (case map_of (rawOpsMap st) (t_name this) of
                 None \<Rightarrow> Inl TypeError
               | Some name' \<Rightarrow> Inr (name', js_replace name' ''Args'' []))
            else Inr (t_name this, t_name this)) of
        Inl e \<Rightarrow> Inl e
      | Inr (name0, exportName) \<Rightarrow>
          (let name = (if isAggregateInputType ext name0 then name0 @ ''Type'' else name0);
               endLine = ''export const '' @ exportName @ ''ObjectSchema = Schema''
           in if isPrismaTypeAvailable name \<or> hasComplexRelations this then
                Inr (''const Schema: z.ZodType<Prisma.'' @ name @ ''> = '' @ schema
                  @ '';\<newline>\<newline> '' @ endLine)
              else
                Inr (''const Schema = '' @ schema @ '';\<newline>\<newline> '' @ endLine)))"

definition resolveObjectSchemaName :: "statics \<Rightarrow> externals \<Rightarrow> transformer \<Rightarrow> error + string" where
  "resolveObjectSchemaName st ext this =
     (if isMongodbRawOp ext (t_name this) then
        (case map_of (rawOpsMap st) (t_name this) of
           None \<Rightarrow> Inl TypeError
         | Some name' \<Rightarrow> Inr (js_replace name' ''Args'' []))
      else Inr (t_name this))"

definition wrapWithZodObject :: "string list \<Rightarrow> string" where
  "wrapWithZodObject zodStringFields =
     ''z.object({'' @ ''\<newline>'' @ ''  '' @ js_join '','' zodStringFields @ ''\<newline>''
       @ ''})''"

definition addFinalWrappers :: "string list \<Rightarrow> string" where
  "addFinalWrappers zodStringFields = wrapWithZodObject zodStringFields @ ''.strict()''"

definition isNewPrismaClientGenerator :: "statics \<Rightarrow> bool" where
  "isNewPrismaClientGenerator st =
     (prismaClientProvider st = ''prisma-client''
      \<or> moduleFormat st \<noteq> None
      \<or> runtime st \<noteq> None)"

text \<open>\<^verbatim>\<open>generateImportPrismaStatement(basePath?)\<close>; an absent or empty \<open>basePath\<close>
  selects the objects directory.\<close>

definition generateImportPrismaStatement :: "statics \<Rightarrow> externals \<Rightarrow> string option \<Rightarrow> string"
where
  "generateImportPrismaStatement st ext basePath =
     (let prismaClientImportPath =
            (if isCustomPrismaClientOutputPath st then
               (let fromPath = (if truthy basePath then the basePath
                                else path_join [getSchemasPath st, ''objects'']);
                    toPath = prismaClientOutputPath st
                in js_join ''/'' (js_split (CHR ''/'') (path_relative ext fromPath toPath)))
             else prismaClientOutputPath st);
          needsClientSuffix =
            (isNewPrismaClientGenerator st
             \<and> isCustomPrismaClientOutputPath st
             \<and> \<not> js_endsWith prismaClientImportPath ''/client''
             \<and> \<not> js_includes prismaClientImportPath ''@prisma/client'');
          finalImportPath =
            (if needsClientSuffix then prismaClientImportPath @ ''/client''
             else prismaClientImportPath)
      in ''import type { Prisma } from '' @ sq @ finalImportPath @ sq @ '';\<newline>\<newline>'')"

definition generateJsonSchemaImplementation :: "transformer \<Rightarrow> string" where
  "generateJsonSchemaImplementation this =
     (if t_hasJson this then
        ''\<newline>''
        @ ''const literalSchema = z.union([z.string(), z.number(), z.boolean()]);\<newline>''
        @ ''const jsonSchema = z.lazy((): z.ZodType<Prisma.InputJsonValue> =>\<newline>''
        @ ''  z.union([literalSchema, z.array(jsonSchema.nullable()), z.record(z.string(), jsonSchema.nullable())])\<newline>''
        @ '');\<newline>\<newline>''
      else [])"

definition getImportFileExtension :: "statics \<Rightarrow> string" where
  "getImportFileExtension st =
     (if isNewPrismaClientGenerator st
         \<and> moduleFormat st = Some ''esm''
         \<and> truthy (importFileExtension st)
      then ''.'' @ the (importFileExtension st)
      else [])"

definition generateImportStatement :: "statics \<Rightarrow> string \<Rightarrow> string \<Rightarrow> string" where
  "generateImportStatement st importName importPath =
     (let extension = getImportFileExtension st
      in ''import { '' @ importName @ '' } from '' @ sq @ importPath @ extension @ sq)"

definition generateSchemaImports :: "statics \<Rightarrow> transformer \<Rightarrow> string" where
  "generateSchemaImports st this =
     (let importExtension = getImportFileExtension st
      in js_join ('';'' @ crlf)
           (map (\<lambda>name.
                   case checkIsModelQueryType name of
                     Some (modelName, queryName) \<Rightarrow>
                       ''import { '' @ resolveModelQuerySchemaName modelName queryName
                         @ '' } from '' @ sq @ ''../'' @ queryName @ modelName @ ''.schema''
                         @ importExtension @ sq
                   | None \<Rightarrow>
                       if name \<in> set (enumNames st) then
                         ''import { '' @ name @ ''Schema } from '' @ sq @ ''../enums/'' @ name
                           @ ''.schema'' @ importExtension @ sq
                       else
                         ''import { '' @ name @ ''ObjectSchema } from '' @ sq @ ''./'' @ name
                           @ ''.schema'' @ importExtension @ sq)
              (t_schemaImports this)))"

definition generateObjectSchemaImportStatements :: "statics \<Rightarrow> transformer \<Rightarrow> string" where
  "generateObjectSchemaImportStatements st this =
     generateImportZodStatement @ generateSchemaImports st this @ ''\<newline>\<newline>''"

definition prepareObjectSchema ::
  "statics \<Rightarrow> externals \<Rightarrow> transformer \<Rightarrow> string list \<Rightarrow> error + string" where
  "prepareObjectSchema st ext this zodObjectSchemaFields =
     (case generateExportObjectSchemaStatement st ext this (addFinalWrappers zodObjectSchemaFields) of
        Inl e \<Rightarrow> Inl e
      | Inr statement \<Rightarrow>
          (let objectSchema = statement @ ''\<newline>'';
               prismaImportStatement = generateImportPrismaStatement st ext None;
               json = generateJsonSchemaImplementation this
           in Inr (generateObjectSchemaImportStatements st this @ prismaImportStatement
                   @ json @ objectSchema)))"

text \<open>\<^verbatim>\<open>generateObjectSchema\<close> returns the file it writes (path and content), or the
  error it throws, together with the instance as the generation of the fields left it.\<close>

definition generateObjectSchema ::
  "statics \<Rightarrow> externals \<Rightarrow> transformer \<Rightarrow> (error + string \<times> string) \<times> transformer" where
  "generateObjectSchema st ext this =
     (case generateObjectSchemaFields this of
        (zodObjectSchemaFields, this') \<Rightarrow>
          (case prepareObjectSchema st ext this' zodObjectSchemaFields of
             Inl e \<Rightarrow> (Inl e, this')
           | Inr objectSchema \<Rightarrow>
               (case resolveObjectSchemaName st ext this' of
                  Inl e \<Rightarrow> (Inl e, this')
                | Inr objectSchemaName \<Rightarrow>
                    (Inr (path_join [getSchemasPath st,
                                     ''objects/'' @ objectSchemaName @ ''.schema.ts''],
                          objectSchema),
                     this'))))"

section \<open>Enum schemas\<close>

definition generateEnumSchemas :: "statics \<Rightarrow> transformer \<Rightarrow> (string \<times> string) list" where
  "generateEnumSchemas st this =
     map (\<lambda>enumType.
            (path_join [getSchemasPath st, ''enums/'' @ en_name enumType @ ''.schema.ts''],
             generateImportZodStatement @ ''\<newline>''
             @ generateExportSchemaStatement (en_name enumType)
                 (''z.enum('' @ JSON_stringify (en_values enumType) @ '')'')))
       (t_enumTypes this)"

section \<open>Operation schemas\<close>

text \<open>\<^verbatim>\<open>generateImportStatements\<close>: the entries that are empty strings (or undefined) are
  filtered out.\<close>

definition generateImportStatements :: "string list \<Rightarrow> string" where
  "generateImportStatements imports =
     generateImportZodStatement
     @ js_join ('';'' @ crlf) (filter (\<lambda>importItem. importItem \<noteq> []) imports)
     @ ''\<newline>\<newline>''"

record selectInclude =
  selectImport :: string
  includeImport :: string
  prismaImport :: string
  selectZodSchemaLine :: string
  includeZodSchemaLine :: string
  selectZodSchemaLineLazy :: string
  includeZodSchemaLineLazy :: string

record orderBy =
  orderByImport :: string
  orderByZodSchemaLine :: string

definition resolveSelectIncludeImportAndZodSchemaLine ::
  "statics \<Rightarrow> externals \<Rightarrow> model \<Rightarrow> selectInclude" where
  "resolveSelectIncludeImportAndZodSchemaLine st ext m =
     (let modelName = m_name m;
          hasRelationToAnotherModel =
            checkModelHasModelRelation (checkIsModelRelationField ext) m;
          zodSelectObjectSchema = modelName @ ''SelectObjectSchema.optional()'';
          zodIncludeObjectSchema = modelName @ ''IncludeObjectSchema.optional()''
      in \<lparr>selectImport =
            (if isGenerateSelect st then
               generateImportStatement st (modelName @ ''SelectObjectSchema'') (''./objects/''
                 @ modelName @ ''Select.schema'')
             else []),
          includeImport =
            (if isGenerateInclude st \<and> hasRelationToAnotherModel then
               generateImportStatement st (modelName @ ''IncludeObjectSchema'') (''./objects/''
                 @ modelName @ ''Include.schema'')
             else []),
          prismaImport =
            (if isGenerateSelect st \<or> (isGenerateInclude st \<and> hasRelationToAnotherModel)
             then generateImportPrismaStatement st ext (Some (getSchemasPath st))
             else []),
          selectZodSchemaLine =
            (if isGenerateSelect st then ''select: '' @ zodSelectObjectSchema @ '','' else []),
          includeZodSchemaLine =
            (if isGenerateInclude st \<and> hasRelationToAnotherModel
             then ''include: '' @ zodIncludeObjectSchema @ '','' else []),
          selectZodSchemaLineLazy =
            (if isGenerateSelect st then
               ''select: z.lazy((): z.ZodType<Prisma.'' @ modelName @ ''Select | undefined> => ''
                 @ zodSelectObjectSchema @ '').optional(),''
             else []),
          includeZodSchemaLineLazy =
            (if isGenerateInclude st \<and> hasRelationToAnotherModel then
               ''include: z.lazy((): z.ZodType<Prisma.'' @ modelName @ ''Include | undefined> => ''
                 @ zodIncludeObjectSchema @ '').optional(),''
             else [])\<rparr>)"

definition resolveOrderByWithRelationImportAndZodSchemaLine :: "statics \<Rightarrow> model \<Rightarrow> orderBy"
where
  "resolveOrderByWithRelationImportAndZodSchemaLine st m =
     (let modelName = m_name m;
          modelOrderBy =
            (if provider st \<in> set [''postgresql'', ''mysql'']
                \<and> (case previewFeatures st of
                      None \<Rightarrow> False
                    | Some fs \<Rightarrow> ''fullTextSearch'' \<in> set fs)
             then modelName @ ''OrderByWithRelationAndSearchRelevanceInput''
             else modelName @ ''OrderByWithRelationInput'')
      in \<lparr>orderByImport =
            generateImportStatement st (modelOrderBy @ ''ObjectSchema'') (''./objects/''
              @ modelOrderBy @ ''.schema''),
          orderByZodSchemaLine =
            ''orderBy: z.union(['' @ modelOrderBy @ ''ObjectSchema, '' @ modelOrderBy
              @ ''ObjectSchema.array()]).optional(),''\<rparr>)"

text \<open>One generated operation schema, before it is written: the operation name that
  names the file, the imports, the exported name (without its \<^verbatim>\<open>Schema\<close> suffix) and
  the schema expression.\<close>

type_synonym unit = "string \<times> string list \<times> string \<times> string"

definition write_unit :: "statics \<Rightarrow> unit \<Rightarrow> string \<times> string" where
  "write_unit st u =
     (case u of (operation, imports, name, schema) \<Rightarrow>
        (path_join [getSchemasPath st, operation @ ''.schema.ts''],
         generateImportStatements imports @ generateExportSchemaStatement name schema))"

definition findUnique_unit :: "statics \<Rightarrow> string \<Rightarrow> selectInclude \<Rightarrow> string \<Rightarrow> unit" where
  "findUnique_unit st modelName si findUnique =
     (findUnique,
      [selectImport si,
       includeImport si,
       prismaImport si,
       generateImportStatement st (modelName @ ''WhereUniqueInputObjectSchema'') (''./objects/''
         @ modelName @ ''WhereUniqueInput.schema'')],
      modelName @ ''FindUnique'',
      ''z.object({ '' @ selectZodSchemaLine si @ '' '' @ includeZodSchemaLine si @ '' where: ''
        @ modelName @ ''WhereUniqueInputObjectSchema })'')"

definition findFirst_unit :: "statics \<Rightarrow> string \<Rightarrow> selectInclude \<Rightarrow> orderBy \<Rightarrow> string \<Rightarrow> unit" where
  "findFirst_unit st modelName si ob findFirst =
     (findFirst,
      [selectImport si,
       includeImport si,
       prismaImport si,
       orderByImport ob,
       generateImportStatement st (modelName @ ''WhereInputObjectSchema'') (''./objects/''
         @ modelName @ ''WhereInput.schema''),
       generateImportStatement st (modelName @ ''WhereUniqueInputObjectSchema'') (''./objects/''
         @ modelName @ ''WhereUniqueInput.schema''),
       generateImportStatement st (modelName @ ''ScalarFieldEnumSchema'') (''./enums/'' @ modelName
         @ ''ScalarFieldEnum.schema'')],
      modelName @ ''FindFirst'',
      ''z.object({ '' @ selectZodSchemaLine si @ '' '' @ includeZodSchemaLine si @ '' ''
        @ orderByZodSchemaLine ob @ '' where: '' @ modelName
        @ ''WhereInputObjectSchema.optional(), cursor: '' @ modelName
        @ ''WhereUniqueInputObjectSchema.optional(), take: z.number().optional(), skip: z.number().optional(), distinct: z.array(''
        @ modelName @ ''ScalarFieldEnumSchema).optional() })'')"

definition findMany_unit :: "statics \<Rightarrow> string \<Rightarrow> selectInclude \<Rightarrow> orderBy \<Rightarrow> string \<Rightarrow> unit" where
  "findMany_unit st modelName si ob findMany =
     (findMany,
      [selectImport si,
       includeImport si,
       prismaImport si,
       orderByImport ob,
       generateImportStatement st (modelName @ ''WhereInputObjectSchema'') (''./objects/''
         @ modelName @ ''WhereInput.schema''),
       generateImportStatement st (modelName @ ''WhereUniqueInputObjectSchema'') (''./objects/''
         @ modelName @ ''WhereUniqueInput.schema''),
       generateImportStatement st (modelName @ ''ScalarFieldEnumSchema'') (''./enums/'' @ modelName
         @ ''ScalarFieldEnum.schema'')],
      modelName @ ''FindMany'',
      ''z.object({ '' @ selectZodSchemaLineLazy si @ '' '' @ includeZodSchemaLineLazy si @ '' ''
        @ orderByZodSchemaLine ob @ '' where: '' @ modelName
        @ ''WhereInputObjectSchema.optional(), cursor: '' @ modelName
        @ ''WhereUniqueInputObjectSchema.optional(), take: z.number().optional(), skip: z.number().optional(), distinct: z.array(''
        @ modelName @ ''ScalarFieldEnumSchema).optional()  })'')"

definition createOne_unit :: "statics \<Rightarrow> string \<Rightarrow> selectInclude \<Rightarrow> string \<Rightarrow> unit" where
  "createOne_unit st modelName si createOne =
     (createOne,
      [selectImport si,
       includeImport si,
       prismaImport si,
       generateImportStatement st (modelName @ ''CreateInputObjectSchema'') (''./objects/''
         @ modelName @ ''CreateInput.schema''),
       generateImportStatement st (modelName @ ''UncheckedCreateInputObjectSchema'') (''./objects/''
         @ modelName @ ''UncheckedCreateInput.schema'')],
      modelName @ ''CreateOne'',
      ''z.object({ '' @ selectZodSchemaLine si @ '' '' @ includeZodSchemaLine si
        @ '' data: z.union(['' @ modelName @ ''CreateInputObjectSchema, '' @ modelName
        @ ''UncheckedCreateInputObjectSchema])  })'')"

definition deleteOne_unit :: "statics \<Rightarrow> string \<Rightarrow> selectInclude \<Rightarrow> string \<Rightarrow> unit" where
  "deleteOne_unit st modelName si deleteOne =
     (deleteOne,
      [selectImport si,
       includeImport si,
       prismaImport si,
       generateImportStatement st (modelName @ ''WhereUniqueInputObjectSchema'') (''./objects/''
         @ modelName @ ''WhereUniqueInput.schema'')],
      modelName @ ''DeleteOne'',
      ''z.object({ '' @ selectZodSchemaLine si @ '' '' @ includeZodSchemaLine si @ '' where: ''
        @ modelName @ ''WhereUniqueInputObjectSchema  })'')"

definition deleteMany_unit :: "statics \<Rightarrow> string \<Rightarrow> selectInclude \<Rightarrow> string \<Rightarrow> unit" where
  "deleteMany_unit st modelName si deleteMany =
     (deleteMany,
      [generateImportStatement st (modelName @ ''WhereInputObjectSchema'') (''./objects/''
        @ modelName @ ''WhereInput.schema'')],
      modelName @ ''DeleteMany'',
      ''z.object({ where: '' @ modelName @ ''WhereInputObjectSchema.optional()  })'')"

definition updateOne_unit :: "statics \<Rightarrow> string \<Rightarrow> selectInclude \<Rightarrow> string \<Rightarrow> unit" where
  "updateOne_unit st modelName si updateOne =
     (updateOne,
      [selectImport si,
       includeImport si,
       prismaImport si,
       generateImportStatement st (modelName @ ''UpdateInputObjectSchema'') (''./objects/''
         @ modelName @ ''UpdateInput.schema''),
       generateImportStatement st (modelName @ ''UncheckedUpdateInputObjectSchema'') (''./objects/''
         @ modelName @ ''UncheckedUpdateInput.schema''),
       generateImportStatement st (modelName @ ''WhereUniqueInputObjectSchema'') (''./objects/''
         @ modelName @ ''WhereUniqueInput.schema'')],
      modelName @ ''UpdateOne'',
      ''z.object({ '' @ selectZodSchemaLine si @ '' '' @ includeZodSchemaLine si
        @ '' data: z.union(['' @ modelName @ ''UpdateInputObjectSchema, '' @ modelName
        @ ''UncheckedUpdateInputObjectSchema]), where: '' @ modelName
        @ ''WhereUniqueInputObjectSchema  })'')"

definition updateMany_unit :: "statics \<Rightarrow> string \<Rightarrow> selectInclude \<Rightarrow> string \<Rightarrow> unit" where
  "updateMany_unit st modelName si updateMany =
     (updateMany,
      [generateImportStatement st (modelName
        @ ''UpdateManyMutationInputObjectSchema'') (''./objects/'' @ modelName
        @ ''UpdateManyMutationInput.schema''),
       generateImportStatement st (modelName @ ''WhereInputObjectSchema'') (''./objects/''
         @ modelName @ ''WhereInput.schema'')],
      modelName @ ''UpdateMany'',
      ''z.object({ data: '' @ modelName @ ''UpdateManyMutationInputObjectSchema, where: ''
        @ modelName @ ''WhereInputObjectSchema.optional()  })'')"

definition upsertOne_unit :: "statics \<Rightarrow> string \<Rightarrow> selectInclude \<Rightarrow> string \<Rightarrow> unit" where
  "upsertOne_unit st modelName si upsertOne =
     (upsertOne,
      [selectImport si,
       includeImport si,
       prismaImport si,
       generateImportStatement st (modelName @ ''WhereUniqueInputObjectSchema'') (''./objects/''
         @ modelName @ ''WhereUniqueInput.schema''),
       generateImportStatement st (modelName @ ''CreateInputObjectSchema'') (''./objects/''
         @ modelName @ ''CreateInput.schema''),
       generateImportStatement st (modelName @ ''UncheckedCreateInputObjectSchema'') (''./objects/''
         @ modelName @ ''UncheckedCreateInput.schema''),
       generateImportStatement st (modelName @ ''UpdateInputObjectSchema'') (''./objects/''
         @ modelName @ ''UpdateInput.schema''),
       generateImportStatement st (modelName @ ''UncheckedUpdateInputObjectSchema'') (''./objects/''
         @ modelName @ ''UncheckedUpdateInput.schema'')],
      modelName @ ''Upsert'',
      ''z.object({ '' @ selectZodSchemaLine si @ '' '' @ includeZodSchemaLine si @ '' where: ''
        @ modelName @ ''WhereUniqueInputObjectSchema, create: z.union([ '' @ modelName
        @ ''CreateInputObjectSchema, '' @ modelName
        @ ''UncheckedCreateInputObjectSchema ]), update: z.union([ '' @ modelName
        @ ''UpdateInputObjectSchema, '' @ modelName @ ''UncheckedUpdateInputObjectSchema ])  })'')"

definition groupBy_unit :: "statics \<Rightarrow> string \<Rightarrow> selectInclude \<Rightarrow> string \<Rightarrow> unit" where
  "groupBy_unit st modelName si groupBy =
     (groupBy,
      [generateImportStatement st (modelName @ ''WhereInputObjectSchema'') (''./objects/''
        @ modelName @ ''WhereInput.schema''),
       generateImportStatement st (modelName
         @ ''OrderByWithAggregationInputObjectSchema'') (''./objects/'' @ modelName
         @ ''OrderByWithAggregationInput.schema''),
       generateImportStatement st (modelName
         @ ''ScalarWhereWithAggregatesInputObjectSchema'') (''./objects/'' @ modelName
         @ ''ScalarWhereWithAggregatesInput.schema''),
       generateImportStatement st (modelName @ ''ScalarFieldEnumSchema'') (''./enums/'' @ modelName
         @ ''ScalarFieldEnum.schema'')],
      modelName @ ''GroupBy'',
      ''z.object({ where: '' @ modelName @ ''WhereInputObjectSchema.optional(), orderBy: z.union([''
        @ modelName @ ''OrderByWithAggregationInputObjectSchema, '' @ modelName
        @ ''OrderByWithAggregationInputObjectSchema.array()]), having: '' @ modelName
        @ ''ScalarWhereWithAggregatesInputObjectSchema.optional(), take: z.number().optional(), skip: z.number().optional(), by: z.array(''
        @ modelName @ ''ScalarFieldEnumSchema)  })'')"

definition createMany_unit :: "statics \<Rightarrow> string \<Rightarrow> string \<Rightarrow> unit" where
  "createMany_unit st modelName createMany =
     (createMany,
      [generateImportStatement st (modelName @ ''CreateManyInputObjectSchema'') (''./objects/''
        @ modelName @ ''CreateManyInput.schema'')],
      modelName @ ''CreateMany'',
      ''z.object({ data: z.union([ '' @ modelName @ ''CreateManyInputObjectSchema, z.array(''
        @ modelName @ ''CreateManyInputObjectSchema) ]), ''
      @ (if provider st = ''postgresql'' \<or> provider st = ''cockroachdb''
         then ''skipDuplicates: z.boolean().optional()''
         else [])
      @ '' })'')"

text \<open>The aggregate schema reads \<^verbatim>\<open>this.aggregateOperationSupport[modelName]\<close>; when
  the model has no entry there, reading \<^verbatim>\<open>count\<close> of \<^verbatim>\<open>undefined\<close> throws.\<close>

definition aggregate_unit ::
  "statics \<Rightarrow> transformer \<Rightarrow> string \<Rightarrow> orderBy \<Rightarrow> string \<Rightarrow> error + unit" where
  "aggregate_unit st this modelName ob aggregate =
     (case map_of (t_aggregateOperationSupport this) modelName of
        None \<Rightarrow> Inl TypeError
      | Some support \<Rightarrow>
          (let imports =
                 [orderByImport ob,
                  generateImportStatement st (modelName
                    @ ''WhereInputObjectSchema'') (''./objects/'' @ modelName
                    @ ''WhereInput.schema''),
                  generateImportStatement st (modelName
                    @ ''WhereUniqueInputObjectSchema'') (''./objects/'' @ modelName
                    @ ''WhereUniqueInput.schema'')]
                 @ (if ag_count support then
           [generateImportStatement st (modelName
             @ ''CountAggregateInputObjectSchema'') (''./objects/'' @ modelName
             @ ''CountAggregateInput.schema'')]
         else [])
                 @ (if ag_min support then
           [generateImportStatement st (modelName
             @ ''MinAggregateInputObjectSchema'') (''./objects/'' @ modelName
             @ ''MinAggregateInput.schema'')]
         else [])
                 @ (if ag_max support then
           [generateImportStatement st (modelName
             @ ''MaxAggregateInputObjectSchema'') (''./objects/'' @ modelName
             @ ''MaxAggregateInput.schema'')]
         else [])
                 @ (if ag_avg support then
           [generateImportStatement st (modelName
             @ ''AvgAggregateInputObjectSchema'') (''./objects/'' @ modelName
             @ ''AvgAggregateInput.schema'')]
         else [])
                 @ (if ag_sum support then
           [generateImportStatement st (modelName
             @ ''SumAggregateInputObjectSchema'') (''./objects/'' @ modelName
             @ ''SumAggregateInput.schema'')]
         else []);
               aggregateOperations =
                 (if ag_count support then [''_count: '' @ modelName
                   @ ''CountAggregateInputObjectSchema.optional()''] else [])
                 @ (if ag_min support then [''_min: '' @ modelName
                   @ ''MinAggregateInputObjectSchema.optional()''] else [])
                 @ (if ag_max support then [''_max: '' @ modelName
                   @ ''MaxAggregateInputObjectSchema.optional()''] else [])
                 @ (if ag_avg support then [''_avg: '' @ modelName
                   @ ''AvgAggregateInputObjectSchema.optional()''] else [])
                 @ (if ag_sum support then [''_sum: '' @ modelName
                   @ ''SumAggregateInputObjectSchema.optional()''] else [])
           in Inr (aggregate,
                   imports,
                   modelName @ ''Aggregate'',
                   ''z.object({ '' @ orderByZodSchemaLine ob @ '' where: '' @ modelName
                     @ ''WhereInputObjectSchema.optional(), cursor: '' @ modelName
                     @ ''WhereUniqueInputObjectSchema.optional(), take: z.number().optional(), skip: z.number().optional(), ''
                     @ js_join '', '' aggregateOperations @ '' })'')))"

text \<open>The body of the loop of \<^verbatim>\<open>generateModelSchemas\<close> for one model mapping: the
  schemas in the order in which they are written, and the error that ends the run, if
  any.  A model that \<^verbatim>\<open>findModelByName\<close> does not find is \<^verbatim>\<open>undefined\<close>, and reading
  its name throws before anything is written.\<close>

definition when_truthy :: "string option \<Rightarrow> (string \<Rightarrow> unit) \<Rightarrow> unit list" where
  "when_truthy operation mk = (if truthy operation then [mk (the operation)] else [])"

definition modelOperation_units ::
  "statics \<Rightarrow> externals \<Rightarrow> transformer \<Rightarrow> modelMapping \<Rightarrow> unit list \<times> error option" where
  "modelOperation_units st ext this modelOperation =
     (let modelName = mo_model modelOperation
      in case findModelByName (t_models this) modelName of
           None \<Rightarrow> ([], Some TypeError)
         | Some m \<Rightarrow>
             (let si = resolveSelectIncludeImportAndZodSchemaLine st ext m;
                  ob = resolveOrderByWithRelationImportAndZodSchemaLine st m;
                  before_aggregate =
                    when_truthy (mo_findUnique modelOperation) (findUnique_unit st modelName si)
                    @ when_truthy (mo_findFirst modelOperation) (findFirst_unit st modelName si ob)
                    @ when_truthy (mo_findMany modelOperation) (findMany_unit st modelName si ob)
                    @ when_truthy (mo_createOne modelOperation) (createOne_unit st modelName si)
                    @ when_truthy (mo_createMany modelOperation) (createMany_unit st modelName)
                    @ when_truthy (mo_deleteOne modelOperation) (deleteOne_unit st modelName si)
                    @ when_truthy (mo_deleteMany modelOperation) (deleteMany_unit st modelName si)
                    @ when_truthy (mo_updateOne modelOperation) (updateOne_unit st modelName si)
                    @ when_truthy (mo_updateMany modelOperation) (updateMany_unit st modelName si)
                    @ when_truthy (mo_upsertOne modelOperation) (upsertOne_unit st modelName si);
                  after_aggregate =
                    when_truthy (mo_groupBy modelOperation) (groupBy_unit st modelName si)
              in if truthy (mo_aggregate modelOperation) then
                   (case aggregate_unit st this modelName ob (the (mo_aggregate modelOperation)) of
                      Inl e \<Rightarrow> (before_aggregate, Some e)
                    | Inr u \<Rightarrow> (before_aggregate @ [u] @ after_aggregate, None))
                 else (before_aggregate @ after_aggregate, None)))"

fun generateModelSchemas_units ::
  "statics \<Rightarrow> externals \<Rightarrow> transformer \<Rightarrow> modelMapping list \<Rightarrow> unit list \<times> error option" where
  "generateModelSchemas_units st ext this [] = ([], None)"
| "generateModelSchemas_units st ext this (modelOperation # rest) =
     (case modelOperation_units st ext this modelOperation of
        (us, Some e) \<Rightarrow> (us, Some e)
      | (us, None) \<Rightarrow>
          (case generateModelSchemas_units st ext this rest of
             (us', e) \<Rightarrow> (us @ us', e)))"

text \<open>\<^verbatim>\<open>generateModelSchemas\<close>: the files written (path and content), in order, and the
  error that ended the run, if any.\<close>

definition generateModelSchemas ::
  "statics \<Rightarrow> externals \<Rightarrow> transformer \<Rightarrow> (string \<times> string) list \<times> error option" where
  "generateModelSchemas st ext this =
     (case generateModelSchemas_units st ext this (t_modelOperations this) of
        (us, e) \<Rightarrow> (map (write_unit st) us, e))"

section \<open>Include input types\<close>

text \<open>The inner loop of \<^verbatim>\<open>generateModelIncludeInputObjectTypes\<close>: one schema argument
  per relation field.\<close>

fun relationIncludeFields :: "(modelField \<Rightarrow> bool) \<Rightarrow> modelField list \<Rightarrow> schemaArg list" where
  "relationIncludeFields isRelationField [] = []"
| "relationIncludeFields isRelationField (modelField # modelFields) =
     (if isRelationField modelField then
        [\<lparr>arg_name = mf_name modelField, arg_isRequired = False, arg_isNullable = False,
          arg_inputTypes =
            [\<lparr>it_isList = False, it_type = ''Boolean'', it_location = Scalar,
               it_namespace = None\<rparr>,
             \<lparr>it_isList = False,
               it_type = (if mf_isList modelField then mf_type modelField @ ''FindManyArgs''
                          else mf_type modelField @ ''DefaultArgs''),
               it_location = InputObjectTypes, it_namespace = Some NsPrisma\<rparr>]\<rparr>]
      else [])
     @ relationIncludeFields isRelationField modelFields"

fun generateModelIncludeInputObjectTypes ::
  "(modelField \<Rightarrow> bool) \<Rightarrow> model list \<Rightarrow> bool \<Rightarrow> inputObjectType list" where
  "generateModelIncludeInputObjectTypes isRelationField [] isGenerateSelect' = []"
| "generateModelIncludeInputObjectTypes isRelationField (m # models) isGenerateSelect' =
     (let modelName = m_name m;
          includeFields = relationIncludeFields isRelationField (m_fields m);
          hasRelationToAnotherModel = checkModelHasModelRelation isRelationField m
      in if \<not> hasRelationToAnotherModel then
           generateModelIncludeInputObjectTypes isRelationField models isGenerateSelect'
         else
           (let hasManyRelationToAnotherModel =
                  checkModelHasManyModelRelation isRelationField m;
                shouldAddCountField = hasManyRelationToAnotherModel;
                inputTypes =
                  [\<lparr>it_isList = False, it_type = ''Boolean'', it_location = Scalar,
                     it_namespace = None\<rparr>]
                  @ (if isGenerateSelect' then
                       [\<lparr>it_isList = False, it_type = modelName @ ''CountOutputTypeDefaultArgs'',
                          it_location = InputObjectTypes, it_namespace = Some NsPrisma\<rparr>]
                     else []);
                countField = \<lparr>arg_name = ''_count'', arg_isRequired = False,
                               arg_isNullable = False, arg_inputTypes = inputTypes\<rparr>;
                includeFields' =
                  (if shouldAddCountField then includeFields @ [countField] else includeFields)
            in \<lparr>iot_name = modelName @ ''Include'',
                 iot_constraints = \<lparr>maxNumFields = None, minNumFields = None\<rparr>,
                 iot_fields = includeFields'\<rparr>
               # generateModelIncludeInputObjectTypes isRelationField models
                   isGenerateSelect'))"

definition addMissingInputObjectTypesForInclude ::
  "(modelField \<Rightarrow> bool) \<Rightarrow> inputObjectType list \<Rightarrow> model list \<Rightarrow> bool \<Rightarrow> inputObjectType list"
where
  "addMissingInputObjectTypesForInclude isRelationField inputObjectTypes models
     isGenerateSelect' =
     inputObjectTypes
     @ generateModelIncludeInputObjectTypes isRelationField models isGenerateSelect'"

section \<open>Notions used in the statements\<close>

text \<open>The alternatives of a field after the \<^verbatim>\<open>reduce\<close> of
  \<^verbatim>\<open>generateObjectSchemaField\<close>, before optional wrappers are stripped.\<close>

definition resolved_alternatives :: "transformer \<Rightarrow> schemaArg \<Rightarrow> string list" where
  "resolved_alternatives this field =
     fst (foldl (reduce_step field (length (arg_inputTypes field))) ([], this)
            (arg_inputTypes field))"

text \<open>The scalar type names that the \<^verbatim>\<open>reduce\<close> recognizes, and the input types that
  it resolves to an alternative: a recognized scalar, an enum, or a type of the
  \<^verbatim>\<open>prisma\<close> namespace.\<close>

definition recognized_scalars :: "string list" where
  "recognized_scalars =
     [''String'', ''Int'', ''Float'', ''Decimal'', ''BigInt'', ''Boolean'', ''DateTime'',
      ''Json'', ''True'', ''Bytes'']"

definition resolvable :: "inputType \<Rightarrow> bool" where
  "resolvable inputType =
     (it_type inputType \<in> set recognized_scalars
      \<or> it_location inputType = EnumTypes
      \<or> it_namespace inputType = Some NsPrisma)"

text \<open>The mapping of scalar types to validator primitives as the specification documents
  it (section 4.1), in the vocabulary of the validator library.\<close>

definition documented_scalar_mapping :: "(string \<times> string) list" where
  "documented_scalar_mapping =
     [(''String'', ''z.string()''),
      (''Int'', ''z.number().int()''),
      (''Float'', ''z.number()''),
      (''Decimal'', ''z.number()''),
      (''BigInt'', ''z.bigint()''),
      (''Boolean'', ''z.boolean()''),
      (''DateTime'', ''z.coerce.date()''),
      (''Json'', ''jsonSchema''),
      (''True'', ''z.literal(true)''),
      (''Bytes'', ''z.instanceof(Uint8Array)'')]"

definition optional_suffix :: "schemaArg \<Rightarrow> string" where
  "optional_suffix field = (if arg_isRequired field then [] else ''.optional()'')"

text \<open>\<open>has2 a b s\<close>: the character \<open>a\<close> is directly followed by \<open>b\<close> somewhere in
  \<open>s\<close>.  A string that contains a pattern contains each such pair of the pattern.\<close>

fun has2 :: "'a \<Rightarrow> 'a \<Rightarrow> 'a list \<Rightarrow> bool" where
  "has2 a b (x # y # ys) = ((x = a \<and> y = b) \<or> has2 a b (y # ys))"
| "has2 a b _ = False"

text \<open>\<open>covers s t\<close>: the instance \<open>s\<close> was constructed from the same parameters as \<open>t\<close>
  and already holds every schema import and the JSON flag of \<open>t\<close>.\<close>

definition covers :: "transformer \<Rightarrow> transformer \<Rightarrow> bool" where
  "covers s t =
     (t_name s = t_name t
      \<and> t_fields s = t_fields t
      \<and> t_models s = t_models t
      \<and> t_modelOperations s = t_modelOperations t
      \<and> t_aggregateOperationSupport s = t_aggregateOperationSupport t
      \<and> t_enumTypes s = t_enumTypes t
      \<and> set (t_schemaImports t) \<subseteq> set (t_schemaImports s)
      \<and> (t_hasJson t \<longrightarrow> t_hasJson s))"

text \<open>The operation name (which names the file) and the exported name of a generated
  operation schema.\<close>

definition operation_and_name :: "unit \<Rightarrow> string \<times> string" where
  "operation_and_name u = (fst u, fst (snd (snd u)))"

subsection \<open>A small schema: users and their posts\<close>

definition ex_statics :: statics where
  "ex_statics =
     \<lparr>enumNames = [''Role'', ''SortOrder''], rawOpsMap = [], provider = ''postgresql'',
      previewFeatures = None, outputPath = ''./generated'',
      prismaClientOutputPath = ''@prisma/client'', isCustomPrismaClientOutputPath = False,
      prismaClientProvider = ''prisma-client-js'', moduleFormat = None, runtime = None,
      importFileExtension = None, isGenerateSelect = True, isGenerateInclude = True\<rparr>"

definition ex_externals :: externals where
  "ex_externals =
     \<lparr>isMongodbRawOp = (\<lambda>name. False), isAggregateInputType = (\<lambda>name. False),
      checkIsModelRelationField = (\<lambda>modelField. mf_relationName modelField \<noteq> None),
      path_relative = (\<lambda>fromPath toPath. toPath)\<rparr>"

definition ex_User :: model where
  "ex_User =
     \<lparr>m_name = ''User'',
      m_fields =
        [\<lparr>mf_name = ''id'', mf_kind = ''scalar'', mf_isList = False, mf_type = ''Int'',
           mf_relationName = None\<rparr>,
         \<lparr>mf_name = ''email'', mf_kind = ''scalar'', mf_isList = False, mf_type = ''String'',
           mf_relationName = None\<rparr>,
         \<lparr>mf_name = ''posts'', mf_kind = ''object'', mf_isList = True, mf_type = ''Post'',
           mf_relationName = Some ''PostToUser''\<rparr>]\<rparr>"

definition ex_Post :: model where
  "ex_Post =
     \<lparr>m_name = ''Post'',
      m_fields =
        [\<lparr>mf_name = ''id'', mf_kind = ''scalar'', mf_isList = False, mf_type = ''Int'',
           mf_relationName = None\<rparr>,
         \<lparr>mf_name = ''title'', mf_kind = ''scalar'', mf_isList = False, mf_type = ''String'',
           mf_relationName = None\<rparr>,
         \<lparr>mf_name = ''author'', mf_kind = ''object'', mf_isList = False, mf_type = ''User'',
           mf_relationName = Some ''PostToUser''\<rparr>]\<rparr>"

definition ex_Tag :: model where
  "ex_Tag =
     \<lparr>m_name = ''Tag'',
      m_fields =
        [\<lparr>mf_name = ''id'', mf_kind = ''scalar'', mf_isList = False, mf_type = ''Int'',
           mf_relationName = None\<rparr>]\<rparr>"

definition ex_mapping :: modelMapping where
  "ex_mapping =
     \<lparr>mo_model = ''User'', mo_findUnique = Some ''findUniqueUser'', mo_findFirst = None,
      mo_findMany = Some ''findManyUser'', mo_createOne = None,
      mo_createMany = Some ''createManyUser'', mo_deleteOne = None, mo_updateOne = None,
      mo_deleteMany = None, mo_updateMany = None, mo_upsertOne = None, mo_aggregate = None,
      mo_groupBy = None\<rparr>"

text \<open>The fields \<^verbatim>\<open>posts\<close> of \<^verbatim>\<open>UserInclude\<close>, \<^verbatim>\<open>NOT\<close> of \<^verbatim>\<open>UserWhereInput\<close>, a
  nullable \<^verbatim>\<open>meta\<close> field of type \<^verbatim>\<open>Json\<close> and a field whose only type is of no
  namespace.\<close>

definition ex_posts :: schemaArg where
  "ex_posts =
     \<lparr>arg_name = ''posts'', arg_isRequired = False, arg_isNullable = False,
      arg_inputTypes =
        [\<lparr>it_isList = False, it_type = ''Boolean'', it_location = Scalar, it_namespace = None\<rparr>,
         \<lparr>it_isList = False, it_type = ''PostFindManyArgs'', it_location = InputObjectTypes,
           it_namespace = Some NsPrisma\<rparr>]\<rparr>"

definition ex_NOT :: schemaArg where
  "ex_NOT =
     \<lparr>arg_name = ''NOT'', arg_isRequired = False, arg_isNullable = False,
      arg_inputTypes =
        [\<lparr>it_isList = False, it_type = ''UserWhereInput'', it_location = InputObjectTypes,
           it_namespace = Some NsPrisma\<rparr>,
         \<lparr>it_isList = True, it_type = ''UserWhereInput'', it_location = InputObjectTypes,
           it_namespace = Some NsPrisma\<rparr>]\<rparr>"

definition ex_meta :: schemaArg where
  "ex_meta =
     \<lparr>arg_name = ''meta'', arg_isRequired = False, arg_isNullable = True,
      arg_inputTypes =
        [\<lparr>it_isList = False, it_type = ''Json'', it_location = Scalar, it_namespace = None\<rparr>]\<rparr>"

definition ex_unknown :: schemaArg where
  "ex_unknown =
     \<lparr>arg_name = ''mystery'', arg_isRequired = True, arg_isNullable = False,
      arg_inputTypes =
        [\<lparr>it_isList = False, it_type = ''Mystery'', it_location = InputObjectTypes,
           it_namespace = None\<rparr>]\<rparr>"

text \<open>Input types: a list of the composite being generated, a derived model-operation
  type, a composite type of the \<^verbatim>\<open>model\<close> namespace, and an enum.\<close>

definition ex_self_list :: inputType where
  "ex_self_list =
     \<lparr>it_isList = True, it_type = ''UserWhereInput'', it_location = InputObjectTypes,
      it_namespace = Some NsPrisma\<rparr>"

definition ex_findManyArgs :: inputType where
  "ex_findManyArgs =
     \<lparr>it_isList = False, it_type = ''PostFindManyArgs'', it_location = InputObjectTypes,
      it_namespace = Some NsPrisma\<rparr>"

definition ex_model_composite :: inputType where
  "ex_model_composite =
     \<lparr>it_isList = False, it_type = ''Address'', it_location = InputObjectTypes,
      it_namespace = Some NsModel\<rparr>"

definition ex_enum :: inputType where
  "ex_enum =
     \<lparr>it_isList = False, it_type = ''Role'', it_location = EnumTypes,
      it_namespace = Some NsModel\<rparr>"

definition ex_transformer :: "string \<Rightarrow> schemaArg list \<Rightarrow> transformer" where
  "ex_transformer name fs =
     \<lparr>t_name = name, t_fields = fs, t_schemaImports = [], t_models = [ex_User, ex_Post, ex_Tag],
      t_modelOperations = [ex_mapping], t_aggregateOperationSupport = [],
      t_enumTypes = [\<lparr>en_name = ''Role'', en_values = [''USER'', ''ADMIN'']\<rparr>],
      t_hasJson = False\<rparr>"

section \<open>Facts about the string operations\<close>

lemma js_includes_sublist: "js_includes s p = sublist p s"
proof (induction s)
  case Nil
  show ?case by (simp add: js_includes_def)
next
  case (Cons c cs)
  then show ?case
    by (auto simp add: js_includes_def sublist_Cons_right)
qed

lemma js_includes_char: "js_includes s [c] = (c \<in> set s)"
  by (induction s) (auto simp add: js_includes_def)

lemma has2_Cons: "has2 a b (x # ys) = ((x = a \<and> ys \<noteq> [] \<and> hd ys = b) \<or> has2 a b ys)"
  by (cases ys) auto

lemma has2_append:
  "has2 a b (xs @ ys) =
     (has2 a b xs \<or> has2 a b ys \<or> (xs \<noteq> [] \<and> last xs = a \<and> ys \<noteq> [] \<and> hd ys = b))"
proof (induction xs)
  case Nil
  show ?case by simp
next
  case (Cons x xs)
  show ?case
  proof (cases xs)
    case Nil
    then show ?thesis by (auto simp add: has2_Cons)
  next
    case (Cons x' xs')
    with Cons.IH show ?thesis by (auto simp add: has2_Cons)
  qed
qed

lemma has2_notin: "a \<notin> set xs \<Longrightarrow> \<not> has2 a b xs"
  by (induction a b xs rule: has2.induct) auto

lemma last_notin: "a \<notin> set xs \<Longrightarrow> xs \<noteq> [] \<Longrightarrow> last xs \<noteq> a"
  using last_in_set by metis

lemma js_includes_has2:
  assumes inc: "js_includes s p" and pair: "has2 a b p"
  shows "has2 a b s"
proof -
  from inc obtain u v where "s = u @ p @ v"
    by (auto simp add: js_includes_sublist sublist_def)
  with pair show ?thesis by (simp add: has2_append)
qed

lemma js_includes_appendI: "js_includes (u @ p @ v) p"
  by (auto simp add: js_includes_sublist sublist_def)

lemma js_indexOf_append_pat:
  assumes "\<not> has2 a b xs" and "a \<noteq> b"
  shows "js_indexOf (xs @ a # b # q) (a # b # q) = Some (length xs)"
  using assms(1)
proof (induction xs)
  case Nil
  show ?case by simp
next
  case (Cons c cs)
  from Cons.prems have cs: "\<not> has2 a b cs" by (simp add: has2_Cons)
  have "\<not> prefix (a # b # q) (c # cs @ a # b # q)"
  proof (cases cs)
    case Nil
    with assms(2) show ?thesis by auto
  next
    case (Cons d ds)
    with Cons.prems show ?thesis by auto
  qed
  with Cons.IH [OF cs] show ?case by simp
qed

lemma js_replace_strip_appended:
  assumes "\<not> has2 a b xs" and "a \<noteq> b"
  shows "js_replace (xs @ a # b # q) (a # b # q) [] = xs"
  by (simp add: js_replace_def js_indexOf_append_pat [OF assms])

lemma js_replace_absent:
  assumes "\<not> has2 a b xs"
  shows "js_replace xs (a # b # q) r = xs"
proof (cases "js_indexOf xs (a # b # q)")
  case None
  then show ?thesis by (simp add: js_replace_def)
next
  case (Some i)
  then have "js_includes xs (a # b # q)" by (simp add: js_includes_def)
  from js_includes_has2 [OF this, of a b] assms show ?thesis by simp
qed

lemma toUpperCase_char_dot: "toUpperCase_char c = CHR ''.'' \<Longrightarrow> c = CHR ''.''"
  by (simp add: toUpperCase_char_def split: if_splits)

lemma capitalize_no_dot: "CHR ''.'' \<notin> set s \<Longrightarrow> CHR ''.'' \<notin> set (capitalize s)"
proof (cases s)
  case Nil
  then show ?thesis by (simp add: capitalize_def)
next
  case (Cons c cs)
  assume "CHR ''.'' \<notin> set s"
  with Cons have "c \<noteq> CHR ''.''" and "CHR ''.'' \<notin> set cs" by auto
  with toUpperCase_char_dot [of c] Cons show ?thesis
    by (auto simp add: capitalize_def)
qed

lemma capitalize_findMany: "capitalize ''findMany'' = ''FindMany''"
  by (simp add: capitalize_def toUpperCase_char_def)

section \<open>Facts about the alternatives of a field\<close>

lemma addSchemaImport_name: "t_name (addSchemaImport this n) = t_name this"
  by (simp add: addSchemaImport_def)

lemma reduce_step_name: "t_name (snd (reduce_step field n (res, this) it)) = t_name this"
  by (simp add: reduce_step_def Let_def addSchemaImport_name)

lemma reduce_step_discard:
  "\<not> resolvable it \<Longrightarrow> reduce_step field n (res, this) it = (res, this)"
  by (simp add: reduce_step_def resolvable_def recognized_scalars_def Let_def)

lemma reduce_step_push:
  "resolvable it \<Longrightarrow> \<exists>a. fst (reduce_step field n (res, this) it) = res @ [a]"
  by (auto simp add: reduce_step_def resolvable_def recognized_scalars_def Let_def)

lemma foldl_reduce_length:
  "length (fst (foldl (reduce_step field n) (res, this) its)) =
     length res + length (filter resolvable its)"
proof (induction its arbitrary: res this)
  case Nil
  show ?case by simp
next
  case (Cons it its)
  obtain res' this' where st: "reduce_step field n (res, this) it = (res', this')"
    by (cases "reduce_step field n (res, this) it")
  show ?case
  proof (cases "resolvable it")
    case True
    from reduce_step_push [OF True, of field n res this] st
    obtain a where "res' = res @ [a]" by auto
    with Cons.IH [of res' this'] st True show ?thesis by simp
  next
    case False
    with reduce_step_discard [OF False, of field n res this] st Cons.IH [of res' this']
    show ?thesis by simp
  qed
qed

lemma resolved_alternatives_length:
  "length (resolved_alternatives this field) = length (filter resolvable (arg_inputTypes field))"
  using foldl_reduce_length [of field _ "[]" this] by (simp add: resolved_alternatives_def)

lemma generateObjectSchemaField_fst:
  "fst (generateObjectSchemaField this field) =
     (let alternatives0 = resolved_alternatives this field in
      if alternatives0 = [] then []
      else
        (let alternatives =
               (if length alternatives0 > 1
                then map (\<lambda>alter. js_replace alter ''.optional()'' []) alternatives0
                else alternatives0);
             fieldName =
               (if list_ex (\<lambda>alt. js_includes alt '':'') alternatives then []
                else ''  '' @ arg_name field @ '':'');
             opt = (if \<not> arg_isRequired field then ''.optional()'' else []);
             resString0 =
               (if length alternatives = 1 then js_join ('','' @ crlf) alternatives
                else ''z.union(['' @ js_join ('','' @ crlf) alternatives @ ''])'' @ opt);
             resString =
               (if arg_isNullable field then resString0 @ ''.nullable()'' else resString0)
         in [(''  '' @ fieldName @ '' '' @ resString @ '' '', field, True)]))"
proof (cases "foldl (reduce_step field (length (arg_inputTypes field))) ([], this)
                (arg_inputTypes field)")
  case (Pair alternatives0 this')
  show ?thesis
  proof (cases "arg_inputTypes field = []")
    case True
    then show ?thesis
      by (simp add: generateObjectSchemaField_def resolved_alternatives_def)
  next
    case False
    with Pair show ?thesis
      by (simp add: generateObjectSchemaField_def resolved_alternatives_def Let_def)
  qed
qed

lemma generateObjectSchemaField_empty_iff:
  "fst (generateObjectSchemaField this field) = [] \<longleftrightarrow> resolved_alternatives this field = []"
  by (simp add: generateObjectSchemaField_fst Let_def)

lemma reduce_step_shift:
  "reduce_step field n (res, this) it =
     (res @ fst (reduce_step field n ([], this) it), snd (reduce_step field n ([], this) it))"
  by (simp add: reduce_step_def Let_def)

lemma foldl_reduce_shift:
  "foldl (reduce_step field n) (res, this) its =
     (res @ fst (foldl (reduce_step field n) ([], this) its),
      snd (foldl (reduce_step field n) ([], this) its))"
proof (induction its arbitrary: res this)
  case Nil
  show ?case by simp
next
  case (Cons it its)
  obtain r1 t1 where st: "reduce_step field n ([], this) it = (r1, t1)"
    by (cases "reduce_step field n ([], this) it")
  have st': "reduce_step field n (res, this) it = (res @ r1, t1)"
    using reduce_step_shift [of field n res this it] st by simp
  show ?case
    using Cons.IH [of "res @ r1" t1] Cons.IH [of r1 t1] st st' by simp
qed

lemma reduce_step_fst_cong:
  "t_name a = t_name b \<Longrightarrow>
   fst (reduce_step field n ([], a) it) = fst (reduce_step field n ([], b) it)"
  by (simp add: reduce_step_def Let_def addSchemaImport_name generatePrismaStringLine_def)

lemma foldl_reduce_concat:
  "fst (foldl (reduce_step field n) ([], this) its) =
     concat (map (\<lambda>it. fst (reduce_step field n ([], this) it)) its)"
proof (induction its arbitrary: this)
  case Nil
  show ?case by simp
next
  case (Cons it its)
  obtain r1 t1 where st: "reduce_step field n ([], this) it = (r1, t1)"
    by (cases "reduce_step field n ([], this) it")
  have nm: "t_name t1 = t_name this"
    using reduce_step_name [of field n "[]" this it] st by simp
  have "map (\<lambda>it. fst (reduce_step field n ([], t1) it)) its =
        map (\<lambda>it. fst (reduce_step field n ([], this) it)) its"
    using reduce_step_fst_cong [OF nm] by simp
  with Cons.IH [of t1] foldl_reduce_shift [of field n r1 t1 its] st show ?case by simp
qed

lemma resolved_alternatives_concat:
  "resolved_alternatives this field =
     concat (map (\<lambda>it. fst (reduce_step field (length (arg_inputTypes field)) ([], this) it))
               (arg_inputTypes field))"
  by (simp add: resolved_alternatives_def foldl_reduce_concat)

lemma reduce_step_required:
  "reduce_step field n ([], this) it =
     (map (\<lambda>b. b @ optional_suffix field)
        (fst (reduce_step (field\<lparr>arg_isRequired := True\<rparr>) n ([], this) it)),
      snd (reduce_step (field\<lparr>arg_isRequired := True\<rparr>) n ([], this) it))"
  by (simp add: reduce_step_def Let_def wrapWithZodValidators_def generatePrismaStringLine_def
      optional_suffix_def)

lemma foldl_reduce_required:
  "foldl (reduce_step field n) ([], this) its =
     (map (\<lambda>b. b @ optional_suffix field)
        (fst (foldl (reduce_step (field\<lparr>arg_isRequired := True\<rparr>) n) ([], this) its)),
      snd (foldl (reduce_step (field\<lparr>arg_isRequired := True\<rparr>) n) ([], this) its))"
proof (induction its arbitrary: this)
  case Nil
  show ?case by simp
next
  case (Cons it its)
  let ?req = "field\<lparr>arg_isRequired := True\<rparr>"
  obtain r1 t1 where st: "reduce_step ?req n ([], this) it = (r1, t1)"
    by (cases "reduce_step ?req n ([], this) it")
  have st': "reduce_step field n ([], this) it = (map (\<lambda>b. b @ optional_suffix field) r1, t1)"
    using reduce_step_required [of field n this it] st by simp
  show ?case
    using foldl_reduce_shift [of field n "map (\<lambda>b. b @ optional_suffix field) r1" t1 its]
      foldl_reduce_shift [of ?req n r1 t1 its] Cons.IH [of t1] st st'
    by simp
qed

lemma resolved_alternatives_required:
  "resolved_alternatives this field =
     map (\<lambda>b. b @ optional_suffix field)
       (resolved_alternatives this (field\<lparr>arg_isRequired := True\<rparr>))"
  using foldl_reduce_required [of field "length (arg_inputTypes field)" this "arg_inputTypes field"]
  by (simp add: resolved_alternatives_def)

subsection \<open>Scalar alternatives\<close>

lemma scalar_mapping_disj:
  assumes "map_of documented_scalar_mapping ty = Some v"
  shows "(ty = ''String'' \<and> v = ''z.string()'')
      \<or> (ty = ''Int'' \<and> v = ''z.number().int()'')
      \<or> (ty = ''Float'' \<and> v = ''z.number()'')
      \<or> (ty = ''Decimal'' \<and> v = ''z.number()'')
      \<or> (ty = ''BigInt'' \<and> v = ''z.bigint()'')
      \<or> (ty = ''Boolean'' \<and> v = ''z.boolean()'')
      \<or> (ty = ''DateTime'' \<and> v = ''z.coerce.date()'')
      \<or> (ty = ''Json'' \<and> v = ''jsonSchema'')
      \<or> (ty = ''True'' \<and> v = ''z.literal(true)'')
      \<or> (ty = ''Bytes'' \<and> v = ''z.instanceof(Uint8Array)'')"
  using map_of_SomeD [OF assms] unfolding documented_scalar_mapping_def by simp

lemma reduce_step_scalar:
  assumes "map_of documented_scalar_mapping (it_type it) = Some v"
  shows "reduce_step field n (res, this) it =
     (res @ [v @ (if it_isList it then ''.array()'' else [])
               @ (if arg_isRequired field then [] else ''.optional()'')],
      if it_type it = ''Json'' then this\<lparr>t_hasJson := True\<rparr> else this)"
  using scalar_mapping_disj [OF assms]
  by (elim disjE conjE) (simp_all add: reduce_step_def wrapWithZodValidators_def)

lemma scalar_no_colon:
  assumes "map_of documented_scalar_mapping ty = Some v"
  shows "\<not> js_includes (v @ (if l then ''.array()'' else [])
               @ (if r then [] else ''.optional()'')) '':''"
  using scalar_mapping_disj [OF assms]
  by (elim disjE conjE) (simp_all add: js_includes_def)

subsection \<open>Alternatives without an embedded optional wrapper\<close>

lemma objectSchemaLine_no_dot:
  assumes "CHR ''.'' \<notin> set (it_type it)"
  shows "CHR ''.'' \<notin> set (objectSchemaLine it)"
proof (cases "js_indexOf (it_type it) ''FindManyArgs''")
  case None
  with assms show ?thesis
    by (simp add: objectSchemaLine_def checkIsModelQueryType_def)
next
  case (Some i)
  from assms have "CHR ''.'' \<notin> set (take i (it_type it))"
    by (auto dest: in_set_takeD)
  then have "CHR ''.'' \<notin> set (capitalize (take i (it_type it)))"
    by (rule capitalize_no_dot)
  with Some show ?thesis
    by (simp add: objectSchemaLine_def checkIsModelQueryType_def resolveModelQuerySchemaName_def
        capitalize_findMany)
qed

lemma has2_dot_o_line:
  assumes nm: "CHR ''.'' \<notin> set nm" and sc: "CHR ''.'' \<notin> set sc"
  shows "\<not> has2 (CHR ''.'') (CHR ''o'')
           ((if n1 then ''  '' @ nm @ '': '' else [])
            @ (if lz then ''z.lazy(() => '' @ sc @ '')'' else sc)
            @ (if l then ''.array()'' else []))"
proof -
  have a: "\<not> has2 (CHR ''.'') (CHR ''o'') nm" and b: "\<not> has2 (CHR ''.'') (CHR ''o'') sc"
    using nm sc by (simp_all add: has2_notin)
  have c: "nm \<noteq> [] \<Longrightarrow> last nm \<noteq> CHR ''.''" and d: "sc \<noteq> [] \<Longrightarrow> last sc \<noteq> CHR ''.''"
    using nm sc by (simp_all add: last_notin)
  show ?thesis
    using a b c d
    by (cases n1; cases lz; cases l; cases "nm = []"; cases "sc = []")
       (simp_all add: has2_append has2_Cons)
qed

lemma generatePrismaStringLine_required_no_dot_o:
  assumes req: "arg_isRequired field"
    and nm: "CHR ''.'' \<notin> set (arg_name field)"
    and ty: "CHR ''.'' \<notin> set (it_type it)"
  shows "\<not> has2 (CHR ''.'') (CHR ''o'') (generatePrismaStringLine this field it n)"
proof -
  define schema where "schema =
    (if it_type it = t_name this then objectSchemaLine it
     else if it_location it = EnumTypes then it_type it @ ''Schema''
     else objectSchemaLine it)"
  define lz where "lz =
    (it_type it = t_name this \<or> (it_location it \<noteq> EnumTypes \<and> it_namespace it = Some NsPrisma))"
  have sc: "CHR ''.'' \<notin> set schema"
    using ty objectSchemaLine_no_dot [OF ty] by (simp add: schema_def)
  have shape: "generatePrismaStringLine this field it n =
      (if n = 1 then ''  '' @ arg_name field @ '': '' else [])
      @ (if lz then ''z.lazy(() => '' @ schema @ '')'' else schema)
      @ (if it_isList it then ''.array()'' else [])"
    using req by (simp add: generatePrismaStringLine_def Let_def schema_def lz_def)
  show ?thesis
    unfolding shape by (rule has2_dot_o_line [OF nm sc])
qed

lemma reduce_step_required_no_dot_o:
  assumes req: "arg_isRequired field"
    and nm: "CHR ''.'' \<notin> set (arg_name field)"
    and ty: "CHR ''.'' \<notin> set (it_type it)"
    and b: "b \<in> set (fst (reduce_step field n ([], this) it))"
  shows "\<not> has2 (CHR ''.'') (CHR ''o'') b"
proof (cases "map_of documented_scalar_mapping (it_type it)")
  case (Some v)
  from b have bv: "b = v @ (if it_isList it then ''.array()'' else [])"
    using req by (simp add: reduce_step_scalar [OF Some])
  from scalar_mapping_disj [OF Some] show ?thesis
    unfolding bv by (elim disjE conjE; cases "it_isList it") simp_all
next
  case None
  then have nonscalar: "it_type it \<notin> set recognized_scalars"
    by (auto simp add: documented_scalar_mapping_def recognized_scalars_def split: if_splits)
  from b nonscalar obtain this' where "b = generatePrismaStringLine this' field it n"
    by (auto simp add: reduce_step_def recognized_scalars_def Let_def split: if_splits)
  then show ?thesis
    using generatePrismaStringLine_required_no_dot_o [OF req nm ty] by simp
qed

lemma foldl_reduce_required_no_dot_o:
  assumes req: "arg_isRequired field"
    and nm: "CHR ''.'' \<notin> set (arg_name field)"
  shows "(\<forall>it \<in> set its. CHR ''.'' \<notin> set (it_type it)) \<Longrightarrow>
         b \<in> set (fst (foldl (reduce_step field n) ([], this) its)) \<Longrightarrow>
         \<not> has2 (CHR ''.'') (CHR ''o'') b"
proof (induction its arbitrary: this)
  case Nil
  then show ?case by simp
next
  case (Cons it its)
  obtain r1 t1 where st: "reduce_step field n ([], this) it = (r1, t1)"
    by (cases "reduce_step field n ([], this) it")
  from Cons.prems(2) st foldl_reduce_shift [of field n r1 t1 its]
  have "b \<in> set r1 \<or> b \<in> set (fst (foldl (reduce_step field n) ([], t1) its))"
    by auto
  then show ?case
  proof
    assume "b \<in> set r1"
    with st have "b \<in> set (fst (reduce_step field n ([], this) it))" by simp
    with Cons.prems(1) show ?thesis
      using reduce_step_required_no_dot_o [OF req nm, of it b n this] by simp
  next
    assume "b \<in> set (fst (foldl (reduce_step field n) ([], t1) its))"
    with Cons.prems(1) Cons.IH [of t1] show ?thesis by simp
  qed
qed

lemma strip_optional:
  assumes "\<not> has2 (CHR ''.'') (CHR ''o'') b"
  shows "js_replace (b @ optional_suffix field) ''.optional()'' [] = b"
proof (cases "arg_isRequired field")
  case True
  with js_replace_absent [OF assms, of "''ptional()''" "[]"] show ?thesis
    by (simp add: optional_suffix_def)
next
  case False
  with js_replace_strip_appended [OF assms, of "''ptional()''"] show ?thesis
    by (simp add: optional_suffix_def)
qed

lemma resolved_alternatives_strip:
  assumes nm: "CHR ''.'' \<notin> set (arg_name field)"
    and ty: "\<forall>it \<in> set (arg_inputTypes field). CHR ''.'' \<notin> set (it_type it)"
  shows "map (\<lambda>alter. js_replace alter ''.optional()'' []) (resolved_alternatives this field)
         = resolved_alternatives this (field\<lparr>arg_isRequired := True\<rparr>)"
    and "\<forall>m \<in> set (resolved_alternatives this (field\<lparr>arg_isRequired := True\<rparr>)).
           \<not> js_includes m ''.optional()''"
proof -
  let ?req = "field\<lparr>arg_isRequired := True\<rparr>"
  have free: "\<not> has2 (CHR ''.'') (CHR ''o'') b" if "b \<in> set (resolved_alternatives this ?req)" for b
    using that foldl_reduce_required_no_dot_o [of ?req "arg_inputTypes field" b
        "length (arg_inputTypes field)" this] nm ty
    by (simp add: resolved_alternatives_def)
  show "map (\<lambda>alter. js_replace alter ''.optional()'' []) (resolved_alternatives this field)
         = resolved_alternatives this ?req"
    using free
    by (subst resolved_alternatives_required) (simp add: map_idI strip_optional comp_def)
  have pair: "has2 (CHR ''.'') (CHR ''o'') ''.optional()''" by simp
  show "\<forall>m \<in> set (resolved_alternatives this ?req). \<not> js_includes m ''.optional()''"
    using free js_includes_has2 [OF _ pair] by blast
qed

subsection \<open>Fields without a resolvable alternative\<close>

lemma foldl_reduce_discard:
  "\<forall>it \<in> set its. \<not> resolvable it \<Longrightarrow> foldl (reduce_step field n) (res, this) its = (res, this)"
  by (induction its) (simp_all add: reduce_step_discard)

lemma generateObjectSchemaField_discard:
  assumes "\<forall>it \<in> set (arg_inputTypes field). \<not> resolvable it"
  shows "generateObjectSchemaField this field = ([], this)"
  using foldl_reduce_discard [OF assms, of field "length (arg_inputTypes field)" "[]" this]
  by (simp add: generateObjectSchemaField_def Let_def)

lemma map_generateObjectSchemaField_append:
  "map_generateObjectSchemaField this (fs1 @ fs2) =
     (fst (map_generateObjectSchemaField this fs1)
        @ fst (map_generateObjectSchemaField (snd (map_generateObjectSchemaField this fs1)) fs2),
      snd (map_generateObjectSchemaField (snd (map_generateObjectSchemaField this fs1)) fs2))"
  by (induction fs1 arbitrary: this) (simp_all split: prod.splits)

lemma map_generateObjectSchemaField_omit:
  assumes "\<forall>it \<in> set (arg_inputTypes field). \<not> resolvable it"
  shows "concat (fst (map_generateObjectSchemaField this (fs1 @ field # fs2))) =
           concat (fst (map_generateObjectSchemaField this (fs1 @ fs2)))"
    and "snd (map_generateObjectSchemaField this (fs1 @ field # fs2)) =
           snd (map_generateObjectSchemaField this (fs1 @ fs2))"
  by (simp_all add: map_generateObjectSchemaField_append
      generateObjectSchemaField_discard [OF assms] split: prod.splits)

lemma reduce_step_fields:
  "reduce_step field n (res, this\<lparr>t_fields := X\<rparr>) it =
     (fst (reduce_step field n (res, this) it),
      (snd (reduce_step field n (res, this) it))\<lparr>t_fields := X\<rparr>)"
  by (simp add: reduce_step_def Let_def addSchemaImport_def generatePrismaStringLine_def)

lemma foldl_reduce_fields:
  "foldl (reduce_step field n) (res, this\<lparr>t_fields := X\<rparr>) its =
     (fst (foldl (reduce_step field n) (res, this) its),
      (snd (foldl (reduce_step field n) (res, this) its))\<lparr>t_fields := X\<rparr>)"
proof (induction its arbitrary: res this)
  case Nil
  show ?case by simp
next
  case (Cons it its)
  obtain r1 t1 where st: "reduce_step field n (res, this) it = (r1, t1)"
    by (cases "reduce_step field n (res, this) it")
  with reduce_step_fields [where field=field and n=n and res=res and this=this and X=X and it=it]
    Cons.IH [of r1 t1]
  show ?case by simp
qed

lemma generateObjectSchemaField_fields:
  "generateObjectSchemaField (this\<lparr>t_fields := X\<rparr>) field =
     (fst (generateObjectSchemaField this field),
      (snd (generateObjectSchemaField this field))\<lparr>t_fields := X\<rparr>)"
proof (cases "foldl (reduce_step field (length (arg_inputTypes field))) ([], this)
                (arg_inputTypes field)")
  case (Pair alts t1)
  with foldl_reduce_fields [where field=field and n="length (arg_inputTypes field)"
      and res="[]" and this=this and X=X and its="arg_inputTypes field"]
  show ?thesis
    by (simp add: generateObjectSchemaField_def Let_def)
qed

lemma map_generateObjectSchemaField_fields:
  "map_generateObjectSchemaField (this\<lparr>t_fields := X\<rparr>) fs =
     (fst (map_generateObjectSchemaField this fs),
      (snd (map_generateObjectSchemaField this fs))\<lparr>t_fields := X\<rparr>)"
proof (induction fs arbitrary: this)
  case Nil
  show ?case by simp
next
  case (Cons f fs)
  obtain i1 t1 where st: "generateObjectSchemaField this f = (i1, t1)"
    by (cases "generateObjectSchemaField this f")
  with generateObjectSchemaField_fields [where this=this and X=X and field=f] Cons.IH [of t1]
  show ?case
    by (simp split: prod.splits)
qed

lemma generateObjectSchemaFields_omit:
  assumes "\<forall>it \<in> set (arg_inputTypes field). \<not> resolvable it"
  shows "fst (generateObjectSchemaFields (this\<lparr>t_fields := fs1 @ field # fs2\<rparr>)) =
         fst (generateObjectSchemaFields (this\<lparr>t_fields := fs1 @ fs2\<rparr>))"
  using map_generateObjectSchemaField_omit(1) [OF assms, of this fs1 fs2]
  by (simp add: generateObjectSchemaFields_def map_generateObjectSchemaField_fields
      split: prod.splits)

section \<open>Reference resolution\<close>

text \<open>
  Claim C1.  For an alternative that refers to a composite (non-enum) type,
  \<^verbatim>\<open>generatePrismaStringLine\<close> wraps the reference in \<^verbatim>\<open>z.lazy(() => ...)\<close> exactly
  when the type is the composite being generated or the alternative comes from the
  \<^verbatim>\<open>prisma\<close> namespace; every other composite reference is emitted as a direct
  reference.  Around the reference stand the field name (when the field has a single
  input type), the array wrapper and the optional wrapper.
\<close>

theorem C1_composite_reference_deferral:
  assumes "it_location inputType \<noteq> EnumTypes"
  shows "generatePrismaStringLine this field inputType n =
     (if n = 1 then ''  '' @ arg_name field @ '': '' else [])
     @ (if it_type inputType = t_name this \<or> it_namespace inputType = Some NsPrisma
        then ''z.lazy(() => '' @ objectSchemaLine inputType @ '')''
        else objectSchemaLine inputType)
     @ (if it_isList inputType then ''.array()'' else [])
     @ (if arg_isRequired field then [] else ''.optional()'')"
  using assms by (simp add: generatePrismaStringLine_def Let_def)

text \<open>The self-reference of \<^verbatim>\<open>UserWhereInput\<close> is deferred; a composite of the
  \<^verbatim>\<open>model\<close> namespace is referenced directly.\<close>

theorem C1_composite_reference_deferral_witness:
  "it_location ex_self_list \<noteq> EnumTypes
   \<and> generatePrismaStringLine (ex_transformer ''UserWhereInput'' [ex_NOT]) ex_NOT ex_self_list 2 =
       ''z.lazy(() => UserWhereInputObjectSchema).array().optional()''
   \<and> it_location ex_model_composite \<noteq> EnumTypes
   \<and> generatePrismaStringLine (ex_transformer ''UserWhereInput'' [ex_NOT]) ex_NOT
         ex_model_composite 2 =
       ''AddressObjectSchema.optional()''"
  using C1_composite_reference_deferral
      [of ex_self_list "ex_transformer ''UserWhereInput'' [ex_NOT]" ex_NOT 2]
    C1_composite_reference_deferral
      [of ex_model_composite "ex_transformer ''UserWhereInput'' [ex_NOT]" ex_NOT 2]
  by (simp add: ex_self_list_def ex_model_composite_def ex_transformer_def ex_NOT_def
      objectSchemaLine_def checkIsModelQueryType_def)

text \<open>
  Claim C4, as stated, fails on the code.  A derived model-operation type of the
  \<^verbatim>\<open>prisma\<close> namespace (as the include helper produces it) is referenced under
  \<^verbatim>\<open>z.lazy\<close>, not directly; and an enum whose name is the name of the composite being
  generated is referenced as an object schema under \<^verbatim>\<open>z.lazy\<close>.
\<close>

theorem C4_direct_reference_counterexample:
  "checkIsModelQueryType (it_type ex_findManyArgs) = Some (''Post'', ''findMany'')
   \<and> generatePrismaStringLine (ex_transformer ''UserInclude'' [ex_posts]) ex_posts
        ex_findManyArgs 2 = ''z.lazy(() => PostFindManySchema).optional()''
   \<and> generatePrismaStringLine (ex_transformer ''UserInclude'' [ex_posts]) ex_posts
        ex_findManyArgs 2 \<noteq> ''PostFindManySchema.optional()''
   \<and> it_location ex_enum = EnumTypes
   \<and> generatePrismaStringLine (ex_transformer ''Role'' [ex_posts]) ex_posts ex_enum 2 =
        ''z.lazy(() => RoleObjectSchema).optional()''"
  by (simp add: ex_findManyArgs_def ex_enum_def ex_transformer_def ex_posts_def
      generatePrismaStringLine_def objectSchemaLine_def checkIsModelQueryType_def
      resolveModelQuerySchemaName_def capitalize_def toUpperCase_char_def Let_def)

text \<open>
  Claim C4, amended.  An enum alternative whose type is not the composite being generated
  is referenced directly by the name of the enum's schema, \<^verbatim>\<open><type>Schema\<close>.  A
  non-enum alternative whose type name contains \<^verbatim>\<open>FindManyArgs\<close> refers to the name
  Capitalize(modelName) + \<^verbatim>\<open>FindMany\<close> + \<^verbatim>\<open>Schema\<close>, where the model name is the part
  of the type name before \<^verbatim>\<open>FindManyArgs\<close>; the reference is wrapped in \<^verbatim>\<open>z.lazy\<close>
  when the type is the composite being generated or the alternative comes from the
  \<^verbatim>\<open>prisma\<close> namespace, and is direct otherwise.
\<close>

theorem C4_reference_names:
  "(it_location inputType = EnumTypes \<and> it_type inputType \<noteq> t_name this \<longrightarrow>
      generatePrismaStringLine this field inputType n =
        (if n = 1 then ''  '' @ arg_name field @ '': '' else [])
        @ it_type inputType @ ''Schema''
        @ (if it_isList inputType then ''.array()'' else [])
        @ (if arg_isRequired field then [] else ''.optional()''))
   \<and> (it_location inputType \<noteq> EnumTypes
        \<and> js_indexOf (it_type inputType) ''FindManyArgs'' = Some i \<longrightarrow>
      generatePrismaStringLine this field inputType n =
        (if n = 1 then ''  '' @ arg_name field @ '': '' else [])
        @ (if it_type inputType = t_name this \<or> it_namespace inputType = Some NsPrisma
           then ''z.lazy(() => '' @ capitalize (take i (it_type inputType)) @ ''FindManySchema''
                @ '')''
           else capitalize (take i (it_type inputType)) @ ''FindManySchema'')
        @ (if it_isList inputType then ''.array()'' else [])
        @ (if arg_isRequired field then [] else ''.optional()''))"
  by (simp add: generatePrismaStringLine_def objectSchemaLine_def checkIsModelQueryType_def
      resolveModelQuerySchemaName_def capitalize_findMany Let_def)

theorem C4_reference_names_witness:
  "it_location ex_enum = EnumTypes
   \<and> it_type ex_enum \<noteq> t_name (ex_transformer ''UserInclude'' [ex_posts])
   \<and> generatePrismaStringLine (ex_transformer ''UserInclude'' [ex_posts]) ex_posts ex_enum 2 =
        ''RoleSchema.optional()''
   \<and> it_location ex_findManyArgs \<noteq> EnumTypes
   \<and> js_indexOf (it_type ex_findManyArgs) ''FindManyArgs'' = Some 4
   \<and> generatePrismaStringLine (ex_transformer ''UserInclude'' [ex_posts]) ex_posts
        ex_findManyArgs 2 = ''z.lazy(() => PostFindManySchema).optional()''"
  using C4_reference_names
      [of ex_enum "ex_transformer ''UserInclude'' [ex_posts]" ex_posts 2 4]
    C4_reference_names
      [of ex_findManyArgs "ex_transformer ''UserInclude'' [ex_posts]" ex_posts 2 4]
  by (simp add: ex_enum_def ex_findManyArgs_def ex_transformer_def ex_posts_def
      capitalize_def toUpperCase_char_def)

section \<open>Scalar types\<close>

text \<open>
  Claim C3.  An alternative of a scalar type is the validator primitive that the
  documented mapping gives for the type, followed by the array wrapper when the
  alternative is list-valued and then by the optional wrapper when the field is not
  required; a \<^verbatim>\<open>Json\<close> alternative also marks the unit as using the shared JSON
  validator.  When the alternative is the only one of the field, the nullable wrapper of
  a nullable field comes last, after the optional wrapper.
\<close>

theorem C3_scalar_mapping:
  assumes "map_of documented_scalar_mapping (it_type inputType) = Some v"
  shows "reduce_step field n (res, this) inputType =
     (res @ [v @ (if it_isList inputType then ''.array()'' else [])
               @ (if arg_isRequired field then [] else ''.optional()'')],
      if it_type inputType = ''Json'' then this\<lparr>t_hasJson := True\<rparr> else this)
   \<and> (arg_inputTypes field = [inputType] \<longrightarrow>
        fst (generateObjectSchemaField this field) =
          [(''    '' @ arg_name field @ '': '' @ v
              @ (if it_isList inputType then ''.array()'' else [])
              @ (if arg_isRequired field then [] else ''.optional()'')
              @ (if arg_isNullable field then ''.nullable()'' else []) @ '' '', field, True)])"
proof (intro conjI impI)
  show "reduce_step field n (res, this) inputType =
     (res @ [v @ (if it_isList inputType then ''.array()'' else [])
               @ (if arg_isRequired field then [] else ''.optional()'')],
      if it_type inputType = ''Json'' then this\<lparr>t_hasJson := True\<rparr> else this)"
    by (rule reduce_step_scalar [OF assms])
next
  assume single: "arg_inputTypes field = [inputType]"
  show "fst (generateObjectSchemaField this field) =
          [(''    '' @ arg_name field @ '': '' @ v
              @ (if it_isList inputType then ''.array()'' else [])
              @ (if arg_isRequired field then [] else ''.optional()'')
              @ (if arg_isNullable field then ''.nullable()'' else []) @ '' '', field, True)]"
    using scalar_no_colon [OF assms, of "it_isList inputType" "arg_isRequired field"]
    by (simp add: generateObjectSchemaField_def single reduce_step_scalar [OF assms] Let_def)
qed

theorem C3_scalar_mapping_witness:
  "map_of documented_scalar_mapping (it_type (hd (arg_inputTypes ex_meta))) = Some ''jsonSchema''
   \<and> arg_inputTypes ex_meta = [hd (arg_inputTypes ex_meta)]
   \<and> fst (generateObjectSchemaField (ex_transformer ''UserCreateInput'' [ex_meta]) ex_meta) =
       [(''    meta: jsonSchema.optional().nullable() '', ex_meta, True)]
   \<and> t_hasJson (snd (reduce_step ex_meta 1 ([], ex_transformer ''UserCreateInput'' [ex_meta])
                        (hd (arg_inputTypes ex_meta))))"
  using C3_scalar_mapping
      [of "hd (arg_inputTypes ex_meta)" "''jsonSchema''" ex_meta 1 "[]"
          "ex_transformer ''UserCreateInput'' [ex_meta]"]
  by (simp add: ex_meta_def documented_scalar_mapping_def)

section \<open>Combining the alternatives of a field\<close>

text \<open>
  Claim C2.  The resolvable alternatives of a field stand in the order of the input types
  in the metadata.  With exactly one resolvable alternative, the combined expression is
  that alternative, with the nullable wrapper appended when the field is nullable.  With
  two or more, it is a union of the alternatives, each with its optional wrapper
  stripped, in the same order; one optional wrapper follows the union exactly when the
  field is not required, and the nullable wrapper comes last when the field is nullable.
  For names without a dot (all identifiers), the stripped members are the alternatives
  the field would have if it were required, and none of them contains an optional
  wrapper.
\<close>

theorem C2_combined_expression:
  "resolved_alternatives this field =
     concat (map (\<lambda>inputType.
                    fst (reduce_step field (length (arg_inputTypes field)) ([], this) inputType))
               (arg_inputTypes field))
   \<and> (resolved_alternatives this field = [a] \<longrightarrow>
      fst (generateObjectSchemaField this field) =
        [(''  '' @ (if js_includes a '':'' then [] else ''  '' @ arg_name field @ '':'')
           @ '' '' @ a @ (if arg_isNullable field then ''.nullable()'' else []) @ '' '',
          field, True)])
   \<and> (2 \<le> length (resolved_alternatives this field) \<longrightarrow>
      fst (generateObjectSchemaField this field) =
        [(''  ''
           @ (if list_ex (\<lambda>alt. js_includes alt '':'')
                   (map (\<lambda>alter. js_replace alter ''.optional()'' [])
                      (resolved_alternatives this field))
              then [] else ''  '' @ arg_name field @ '':'')
           @ '' '' @ ''z.union([''
           @ js_join ('','' @ crlf)
               (map (\<lambda>alter. js_replace alter ''.optional()'' [])
                  (resolved_alternatives this field))
           @ ''])''
           @ (if arg_isRequired field then [] else ''.optional()'')
           @ (if arg_isNullable field then ''.nullable()'' else []) @ '' '',
          field, True)])
   \<and> (CHR ''.'' \<notin> set (arg_name field)
        \<and> (\<forall>inputType \<in> set (arg_inputTypes field). CHR ''.'' \<notin> set (it_type inputType)) \<longrightarrow>
      map (\<lambda>alter. js_replace alter ''.optional()'' []) (resolved_alternatives this field) =
        resolved_alternatives this (field\<lparr>arg_isRequired := True\<rparr>)
      \<and> (\<forall>m \<in> set (map (\<lambda>alter. js_replace alter ''.optional()'' [])
                       (resolved_alternatives this field)).
            \<not> js_includes m ''.optional()''))"
proof (intro conjI impI)
  show "resolved_alternatives this field =
     concat (map (\<lambda>inputType.
                    fst (reduce_step field (length (arg_inputTypes field)) ([], this) inputType))
               (arg_inputTypes field))"
    by (rule resolved_alternatives_concat)
next
  assume one: "resolved_alternatives this field = [a]"
  then show "fst (generateObjectSchemaField this field) =
        [(''  '' @ (if js_includes a '':'' then [] else ''  '' @ arg_name field @ '':'')
           @ '' '' @ a @ (if arg_isNullable field then ''.nullable()'' else []) @ '' '',
          field, True)]"
    by (simp add: generateObjectSchemaField_fst)
next
  assume many: "2 \<le> length (resolved_alternatives this field)"
  then have l1: "length (resolved_alternatives this field) \<noteq> Suc 0"
    and l0: "resolved_alternatives this field \<noteq> []"
    and lg: "Suc 0 < length (resolved_alternatives this field)" by auto
  then show "fst (generateObjectSchemaField this field) =
        [(''  ''
           @ (if list_ex (\<lambda>alt. js_includes alt '':'')
                   (map (\<lambda>alter. js_replace alter ''.optional()'' [])
                      (resolved_alternatives this field))
              then [] else ''  '' @ arg_name field @ '':'')
           @ '' '' @ ''z.union([''
           @ js_join ('','' @ crlf)
               (map (\<lambda>alter. js_replace alter ''.optional()'' [])
                  (resolved_alternatives this field))
           @ ''])''
           @ (if arg_isRequired field then [] else ''.optional()'')
           @ (if arg_isNullable field then ''.nullable()'' else []) @ '' '',
          field, True)]"
    by (simp add: generateObjectSchemaField_fst Let_def)
next
  assume names: "CHR ''.'' \<notin> set (arg_name field)
        \<and> (\<forall>inputType \<in> set (arg_inputTypes field). CHR ''.'' \<notin> set (it_type inputType))"
  then have nm: "CHR ''.'' \<notin> set (arg_name field)"
    and ty: "\<forall>inputType \<in> set (arg_inputTypes field). CHR ''.'' \<notin> set (it_type inputType)"
    by simp_all
  show stripped:
    "map (\<lambda>alter. js_replace alter ''.optional()'' []) (resolved_alternatives this field) =
       resolved_alternatives this (field\<lparr>arg_isRequired := True\<rparr>)"
    by (rule resolved_alternatives_strip(1) [OF nm ty])
  show "\<forall>m \<in> set (map (\<lambda>alter. js_replace alter ''.optional()'' [])
                       (resolved_alternatives this field)).
            \<not> js_includes m ''.optional()''"
    unfolding stripped by (rule resolved_alternatives_strip(2) [OF nm ty])
qed

text \<open>The nullable \<^verbatim>\<open>meta\<close> field has one alternative; the \<^verbatim>\<open>posts\<close> field of
  \<^verbatim>\<open>UserInclude\<close> has two, a boolean and the nested arguments of the bulk fetch.\<close>

theorem C2_combined_expression_witness:
  "resolved_alternatives (ex_transformer ''UserCreateInput'' [ex_meta]) ex_meta =
     [''jsonSchema.optional()'']
   \<and> fst (generateObjectSchemaField (ex_transformer ''UserCreateInput'' [ex_meta]) ex_meta) =
       [(''    meta: jsonSchema.optional().nullable() '', ex_meta, True)]
   \<and> resolved_alternatives (ex_transformer ''UserInclude'' [ex_posts]) ex_posts =
       [''z.boolean().optional()'', ''z.lazy(() => PostFindManySchema).optional()'']
   \<and> 2 \<le> length (resolved_alternatives (ex_transformer ''UserInclude'' [ex_posts]) ex_posts)
   \<and> fst (generateObjectSchemaField (ex_transformer ''UserInclude'' [ex_posts]) ex_posts) =
       [(''    posts: z.union([z.boolean(),'' @ crlf
           @ ''z.lazy(() => PostFindManySchema)]).optional() '', ex_posts, True)]
   \<and> CHR ''.'' \<notin> set (arg_name ex_posts)
   \<and> list_all (\<lambda>inputType. CHR ''.'' \<notin> set (it_type inputType)) (arg_inputTypes ex_posts)
   \<and> map (\<lambda>alter. js_replace alter ''.optional()'' [])
         (resolved_alternatives (ex_transformer ''UserInclude'' [ex_posts]) ex_posts) =
       [''z.boolean()'', ''z.lazy(() => PostFindManySchema)'']"
  using C2_combined_expression
      [of "ex_transformer ''UserCreateInput'' [ex_meta]" ex_meta "''jsonSchema.optional()''"]
    C2_combined_expression
      [of "ex_transformer ''UserInclude'' [ex_posts]" ex_posts "[]"]
  by (simp add: resolved_alternatives_def ex_transformer_def ex_meta_def ex_posts_def
      reduce_step_def wrapWithZodValidators_def generatePrismaStringLine_def
      objectSchemaLine_def checkIsModelQueryType_def resolveModelQuerySchemaName_def
      capitalize_def toUpperCase_char_def addSchemaImport_def Let_def js_replace_def
      js_includes_def crlf_def)

section \<open>Unresolvable alternatives\<close>

text \<open>
  Claim C5.  An alternative whose type is neither a recognized scalar, nor an enum, nor
  of the \<^verbatim>\<open>prisma\<close> namespace is dropped: the step of the \<^verbatim>\<open>reduce\<close> leaves the result
  and the instance as they are, and there is no error.  A field yields an entry exactly
  when one of its input types is resolvable; a field without one (in particular a field
  without input types) yields nothing, leaves the instance unchanged, and the list of
  generated fields of the composite is the list without that field.
\<close>

theorem C5_unresolvable_alternatives_dropped:
  "(\<not> resolvable inputType \<longrightarrow> reduce_step field n (res, this) inputType = (res, this))
   \<and> length (resolved_alternatives this field) =
       length (filter resolvable (arg_inputTypes field))
   \<and> ((fst (generateObjectSchemaField this field) = []) =
        (\<forall>inputType \<in> set (arg_inputTypes field). \<not> resolvable inputType))
   \<and> ((\<forall>inputType \<in> set (arg_inputTypes field). \<not> resolvable inputType) \<longrightarrow>
        generateObjectSchemaField this field = ([], this)
        \<and> fst (generateObjectSchemaFields (this\<lparr>t_fields := fs1 @ field # fs2\<rparr>)) =
            fst (generateObjectSchemaFields (this\<lparr>t_fields := fs1 @ fs2\<rparr>)))"
proof (intro conjI impI)
  assume "\<not> resolvable inputType"
  then show "reduce_step field n (res, this) inputType = (res, this)"
    by (rule reduce_step_discard)
next
  show len: "length (resolved_alternatives this field) =
       length (filter resolvable (arg_inputTypes field))"
    by (rule resolved_alternatives_length)
  have "(resolved_alternatives this field = []) =
        (filter resolvable (arg_inputTypes field) = [])"
    using len by (metis length_0_conv)
  then show "(fst (generateObjectSchemaField this field) = []) =
        (\<forall>inputType \<in> set (arg_inputTypes field). \<not> resolvable inputType)"
    by (simp add: generateObjectSchemaField_empty_iff filter_empty_conv)
next
  assume none: "\<forall>inputType \<in> set (arg_inputTypes field). \<not> resolvable inputType"
  show "generateObjectSchemaField this field = ([], this)"
    by (rule generateObjectSchemaField_discard [OF none])
  show "fst (generateObjectSchemaFields (this\<lparr>t_fields := fs1 @ field # fs2\<rparr>)) =
            fst (generateObjectSchemaFields (this\<lparr>t_fields := fs1 @ fs2\<rparr>))"
    by (rule generateObjectSchemaFields_omit [OF none])
qed

text \<open>A field whose only input type is a composite of no namespace is left out.\<close>

theorem C5_unresolvable_alternatives_dropped_witness:
  "list_all (\<lambda>inputType. \<not> resolvable inputType) (arg_inputTypes ex_unknown)
   \<and> generateObjectSchemaField (ex_transformer ''UserCreateInput'' []) ex_unknown =
       ([], ex_transformer ''UserCreateInput'' [])
   \<and> fst (generateObjectSchemaFields (ex_transformer ''UserCreateInput'' [ex_unknown, ex_meta])) =
       [''meta: jsonSchema.optional().nullable()'']
   \<and> fst (generateObjectSchemaFields (ex_transformer ''UserCreateInput'' [ex_meta])) =
       [''meta: jsonSchema.optional().nullable()'']"
  using C5_unresolvable_alternatives_dropped
      [of "hd (arg_inputTypes ex_unknown)" ex_unknown 1 "[]"
          "ex_transformer ''UserCreateInput'' []" "[]" "[ex_meta]"]
  by (simp add: ex_unknown_def ex_meta_def ex_transformer_def resolvable_def
      recognized_scalars_def generateObjectSchemaFields_def generateObjectSchemaField_def
      reduce_step_def wrapWithZodValidators_def js_includes_def js_trim_def is_space_def
      Let_def)

section \<open>Include input types\<close>

lemma relationIncludeFields_map_filter:
  "relationIncludeFields isRelationField modelFields =
     map (\<lambda>modelField.
            \<lparr>arg_name = mf_name modelField, arg_isRequired = False, arg_isNullable = False,
             arg_inputTypes =
               [\<lparr>it_isList = False, it_type = ''Boolean'', it_location = Scalar,
                  it_namespace = None\<rparr>,
                \<lparr>it_isList = False,
                  it_type = mf_type modelField
                            @ (if mf_isList modelField then ''FindManyArgs'' else ''DefaultArgs''),
                  it_location = InputObjectTypes, it_namespace = Some NsPrisma\<rparr>]\<rparr>)
       (filter isRelationField modelFields)"
  by (induction modelFields) simp_all

text \<open>
  Claim C7.  The include input types are generated for exactly the models that have a
  relation field, in the order of the models, each under the name of the model followed
  by \<^verbatim>\<open>Include\<close>.  Such a type has one field per relation field of the model, in order,
  not required and not nullable, whose alternatives are a boolean and the nested
  arguments: the type of the relation followed by \<^verbatim>\<open>FindManyArgs\<close> when the relation is
  list-valued and by \<^verbatim>\<open>DefaultArgs\<close> otherwise.  A last field \<^verbatim>\<open>_count\<close> is present
  exactly when the model has a list-valued relation field; its alternatives are a boolean
  and, exactly when select generation is enabled, the count arguments of the model.
\<close>

theorem C7_include_input_types:
  "generateModelIncludeInputObjectTypes isRelationField models isGenerateSelect' =
     map (\<lambda>m.
            \<lparr>iot_name = m_name m @ ''Include'',
             iot_constraints = \<lparr>maxNumFields = None, minNumFields = None\<rparr>,
             iot_fields =
               map (\<lambda>modelField.
                      \<lparr>arg_name = mf_name modelField, arg_isRequired = False,
                       arg_isNullable = False,
                       arg_inputTypes =
                         [\<lparr>it_isList = False, it_type = ''Boolean'', it_location = Scalar,
                            it_namespace = None\<rparr>,
                          \<lparr>it_isList = False,
                            it_type = mf_type modelField
                                      @ (if mf_isList modelField then ''FindManyArgs''
                                         else ''DefaultArgs''),
                            it_location = InputObjectTypes, it_namespace = Some NsPrisma\<rparr>]\<rparr>)
                 (filter isRelationField (m_fields m))
               @ (if \<exists>modelField \<in> set (m_fields m).
                        isRelationField modelField \<and> mf_isList modelField
                  then [\<lparr>arg_name = ''_count'', arg_isRequired = False, arg_isNullable = False,
                          arg_inputTypes =
                            \<lparr>it_isList = False, it_type = ''Boolean'', it_location = Scalar,
                              it_namespace = None\<rparr>
                            # (if isGenerateSelect' then
                                 [\<lparr>it_isList = False,
                                    it_type = m_name m @ ''CountOutputTypeDefaultArgs'',
                                    it_location = InputObjectTypes,
                                    it_namespace = Some NsPrisma\<rparr>]
                               else [])\<rparr>]
                  else [])\<rparr>)
       (filter (\<lambda>m. \<exists>modelField \<in> set (m_fields m). isRelationField modelField) models)"
proof (induction models)
  case Nil
  show ?case by simp
next
  case (Cons m models)
  show ?case
  proof (cases "\<exists>modelField \<in> set (m_fields m). isRelationField modelField")
    case False
    with Cons.IH show ?thesis
      by (simp add: checkModelHasModelRelation_def list_ex_iff)
  next
    case True
    with Cons.IH show ?thesis
      by (simp add: checkModelHasModelRelation_def checkModelHasManyModelRelation_def
          list_ex_iff relationIncludeFields_map_filter Let_def)
  qed
qed

text \<open>Users have posts (to-many), a post has an author (to-one), a tag has no relation.\<close>

theorem C7_include_input_types_witness:
  "map (\<lambda>includeType.
          (iot_name includeType,
           map (\<lambda>field. (arg_name field, map it_type (arg_inputTypes field)))
             (iot_fields includeType)))
     (generateModelIncludeInputObjectTypes (checkIsModelRelationField ex_externals)
        [ex_User, ex_Post, ex_Tag] True) =
   [(''UserInclude'',
       [(''posts'', [''Boolean'', ''PostFindManyArgs'']),
        (''_count'', [''Boolean'', ''UserCountOutputTypeDefaultArgs''])]),
    (''PostInclude'', [(''author'', [''Boolean'', ''UserDefaultArgs''])])]"
  using C7_include_input_types
      [of "checkIsModelRelationField ex_externals" "[ex_User, ex_Post, ex_Tag]" True]
  by (simp add: ex_externals_def ex_User_def ex_Post_def ex_Tag_def)

section \<open>The schemas directory\<close>

text \<open>
  Claim C10 says that no unit is ever placed under a duplicated \<^verbatim>\<open>schemas/schemas\<close>
  directory.  \<^verbatim>\<open>path.normalize\<close> keeps a trailing separator, so for an output path
  that names the schemas directory with a trailing slash the last segment after the
  split is the empty string, and \<^verbatim>\<open>schemas\<close> is appended once more.  Without the
  trailing slash the output path is used as it is.
\<close>

theorem C10_trailing_separator_duplicates_schemas:
  "getSchemasPath (st\<lparr>outputPath := ''./generated/schemas/''\<rparr>) = ''generated/schemas/schemas''
   \<and> getSchemasPath (st\<lparr>outputPath := ''./generated/schemas''\<rparr>) = ''./generated/schemas''
   \<and> getSchemasPath (st\<lparr>outputPath := ''./generated''\<rparr>) = ''generated/schemas''"
  by (simp add: getSchemasPath_def path_normalize_def normalizeString_def normalize_step_def
      path_join_def Let_def)

section \<open>The createMany schema\<close>

lemma createMany_schema_no_key:
  assumes "CHR '':'' \<notin> set modelName"
  shows "\<not> has2 (CHR ''s'') (CHR '':'')
           (''z.object({ data: z.union([ '' @ modelName
            @ ''CreateManyInputObjectSchema, z.array('' @ modelName
            @ ''CreateManyInputObjectSchema) ]), '' @ '' })'')"
proof -
  have a: "\<not> has2 (CHR ''s'') (CHR '':'') modelName"
    using assms has2_notin [of "CHR '':''" modelName] 
    by (induction "CHR ''s''" "CHR '':''" modelName rule: has2.induct) auto
  have b: "modelName \<noteq> [] \<Longrightarrow> hd modelName \<noteq> CHR '':''"
    using assms hd_in_set by metis
  show ?thesis
    using a b by (cases "modelName = []") (simp_all add: has2_append has2_Cons)
qed

text \<open>
  Claim C6.  For a model that is found and whose mapping names a createMany operation,
  the createMany schema is among the schemas of the model.  Its file is named after the
  operation and exports \<^verbatim>\<open><Model>CreateManySchema\<close>.  The schema is an object whose
  \<^verbatim>\<open>data\<close> is the union of the create-many input and an array of it, followed by the
  key \<^verbatim>\<open>skipDuplicates\<close> as an optional boolean exactly when the provider is
  \<^verbatim>\<open>postgresql\<close> or \<^verbatim>\<open>cockroachdb\<close>; for every other provider, and a model name
  without a colon, the key does not occur in the schema at all.
\<close>

theorem C6_createMany_skipDuplicates:
  assumes "truthy (mo_createMany modelOperation)"
    and "findModelByName (t_models this) (mo_model modelOperation) = Some m"
  shows "createMany_unit st (mo_model modelOperation) (the (mo_createMany modelOperation))
           \<in> set (fst (modelOperation_units st ext this modelOperation))
   \<and> write_unit st (createMany_unit st modelName createMany) =
       (path_join [getSchemasPath st, createMany @ ''.schema.ts''],
        generateImportStatements
          [generateImportStatement st (modelName @ ''CreateManyInputObjectSchema'')
             (''./objects/'' @ modelName @ ''CreateManyInput.schema'')]
        @ ''export const '' @ modelName @ ''CreateManySchema = ''
        @ snd (snd (snd (createMany_unit st modelName createMany))))
   \<and> snd (snd (snd (createMany_unit st modelName createMany))) =
       ''z.object({ data: z.union([ '' @ modelName
       @ ''CreateManyInputObjectSchema, z.array('' @ modelName
       @ ''CreateManyInputObjectSchema) ]), ''
       @ (if provider st = ''postgresql'' \<or> provider st = ''cockroachdb''
          then ''skipDuplicates: z.boolean().optional()'' else [])
       @ '' })''
   \<and> (CHR '':'' \<notin> set modelName \<longrightarrow>
        js_includes (snd (snd (snd (createMany_unit st modelName createMany))))
          ''skipDuplicates:''
        = (provider st = ''postgresql'' \<or> provider st = ''cockroachdb''))"
proof (intro conjI impI)
  show "createMany_unit st (mo_model modelOperation) (the (mo_createMany modelOperation))
           \<in> set (fst (modelOperation_units st ext this modelOperation))"
    using assms
    by (simp add: modelOperation_units_def when_truthy_def Let_def split: sum.splits)
next
  show "write_unit st (createMany_unit st modelName createMany) =
       (path_join [getSchemasPath st, createMany @ ''.schema.ts''],
        generateImportStatements
          [generateImportStatement st (modelName @ ''CreateManyInputObjectSchema'')
             (''./objects/'' @ modelName @ ''CreateManyInput.schema'')]
        @ ''export const '' @ modelName @ ''CreateManySchema = ''
        @ snd (snd (snd (createMany_unit st modelName createMany))))"
    by (simp add: write_unit_def createMany_unit_def generateExportSchemaStatement_def)
next
  show "snd (snd (snd (createMany_unit st modelName createMany))) =
       ''z.object({ data: z.union([ '' @ modelName
       @ ''CreateManyInputObjectSchema, z.array('' @ modelName
       @ ''CreateManyInputObjectSchema) ]), ''
       @ (if provider st = ''postgresql'' \<or> provider st = ''cockroachdb''
          then ''skipDuplicates: z.boolean().optional()'' else [])
       @ '' })''"
    by (simp add: createMany_unit_def)
next
  assume name: "CHR '':'' \<notin> set modelName"
  let ?pre = "''z.object({ data: z.union([ '' @ modelName
       @ ''CreateManyInputObjectSchema, z.array('' @ modelName
       @ ''CreateManyInputObjectSchema) ]), ''"
  show "js_includes (snd (snd (snd (createMany_unit st modelName createMany))))
          ''skipDuplicates:''
        = (provider st = ''postgresql'' \<or> provider st = ''cockroachdb'')"
  proof (cases "provider st = ''postgresql'' \<or> provider st = ''cockroachdb''")
    case True
    have "js_includes (?pre @ ''skipDuplicates:'' @ '' z.boolean().optional() })'')
            ''skipDuplicates:''"
      by (rule js_includes_appendI)
    with True show ?thesis by (auto simp add: createMany_unit_def)
  next
    case False
    have pair: "has2 (CHR ''s'') (CHR '':'') ''skipDuplicates:''" by simp
    have "\<not> js_includes (?pre @ '' })'') ''skipDuplicates:''"
    proof
      assume "js_includes (?pre @ '' })'') ''skipDuplicates:''"
      from js_includes_has2 [OF this pair] createMany_schema_no_key [OF name]
      show False by simp
    qed
    with False show ?thesis by (auto simp add: createMany_unit_def)
  qed
qed

text \<open>The users of the example, with \<^verbatim>\<open>postgresql\<close> and with \<^verbatim>\<open>mysql\<close>.\<close>

theorem C6_createMany_skipDuplicates_witness:
  "truthy (mo_createMany ex_mapping)
   \<and> findModelByName (t_models (ex_transformer [] [])) (mo_model ex_mapping) = Some ex_User
   \<and> createMany_unit ex_statics ''User'' ''createManyUser''
        \<in> set (fst (modelOperation_units ex_statics ex_externals (ex_transformer [] [])
                      ex_mapping))
   \<and> snd (snd (snd (createMany_unit ex_statics ''User'' ''createManyUser''))) =
       ''z.object({ data: z.union([ UserCreateManyInputObjectSchema, z.array(UserCreateManyInputObjectSchema) ]), skipDuplicates: z.boolean().optional() })''
   \<and> snd (snd (snd (createMany_unit (ex_statics\<lparr>provider := ''mysql''\<rparr>) ''User''
                       ''createManyUser''))) =
       ''z.object({ data: z.union([ UserCreateManyInputObjectSchema, z.array(UserCreateManyInputObjectSchema) ]),  })''
   \<and> CHR '':'' \<notin> set ''User''
   \<and> js_includes (snd (snd (snd (createMany_unit ex_statics ''User'' ''createManyUser''))))
        ''skipDuplicates:''
   \<and> \<not> js_includes (snd (snd (snd (createMany_unit (ex_statics\<lparr>provider := ''mysql''\<rparr>)
                                     ''User'' ''createManyUser'')))) ''skipDuplicates:''"
  using C6_createMany_skipDuplicates
      [of ex_mapping "ex_transformer [] []" ex_User ex_statics ex_externals "''User''"
          "''createManyUser''"]
    C6_createMany_skipDuplicates
      [of ex_mapping "ex_transformer [] []" ex_User "ex_statics\<lparr>provider := ''mysql''\<rparr>"
          ex_externals "''User''" "''createManyUser''"]
  by (simp add: ex_mapping_def ex_transformer_def ex_User_def ex_Post_def ex_Tag_def
      ex_statics_def truthy_def findModelByName_def createMany_unit_def)

section \<open>Paths and exported names of the generated units\<close>

lemma map_when_truthy:
  "map f (when_truthy operation mk) = (if truthy operation then [f (mk (the operation))] else [])"
  by (simp add: when_truthy_def)

lemma operation_and_name_units:
  "operation_and_name (findUnique_unit st modelName si v) = (v, modelName @ ''FindUnique'')"
  "operation_and_name (findFirst_unit st modelName si ob v) = (v, modelName @ ''FindFirst'')"
  "operation_and_name (findMany_unit st modelName si ob v) = (v, modelName @ ''FindMany'')"
  "operation_and_name (createOne_unit st modelName si v) = (v, modelName @ ''CreateOne'')"
  "operation_and_name (createMany_unit st modelName v) = (v, modelName @ ''CreateMany'')"
  "operation_and_name (deleteOne_unit st modelName si v) = (v, modelName @ ''DeleteOne'')"
  "operation_and_name (deleteMany_unit st modelName si v) = (v, modelName @ ''DeleteMany'')"
  "operation_and_name (updateOne_unit st modelName si v) = (v, modelName @ ''UpdateOne'')"
  "operation_and_name (updateMany_unit st modelName si v) = (v, modelName @ ''UpdateMany'')"
  "operation_and_name (upsertOne_unit st modelName si v) = (v, modelName @ ''Upsert'')"
  "operation_and_name (groupBy_unit st modelName si v) = (v, modelName @ ''GroupBy'')"
  by (simp_all add: operation_and_name_def findUnique_unit_def findFirst_unit_def
      findMany_unit_def createOne_unit_def createMany_unit_def deleteOne_unit_def
      deleteMany_unit_def updateOne_unit_def updateMany_unit_def upsertOne_unit_def
      groupBy_unit_def)

lemma operation_and_name_aggregate:
  "aggregate_unit st this modelName ob v = Inr u \<Longrightarrow>
   operation_and_name u = (v, modelName @ ''Aggregate'')"
  by (auto simp add: aggregate_unit_def operation_and_name_def Let_def split: option.splits)

lemma aggregate_unit_Inr:
  "map_of (t_aggregateOperationSupport this) modelName = Some support \<Longrightarrow>
   \<exists>u. aggregate_unit st this modelName ob v = Inr u"
  by (simp add: aggregate_unit_def Let_def)

lemma modelOperation_units_names:
  assumes found: "findModelByName (t_models this) (mo_model modelOperation) = Some m"
    and support: "truthy (mo_aggregate modelOperation) \<longrightarrow>
                  map_of (t_aggregateOperationSupport this) (mo_model modelOperation) \<noteq> None"
  shows "map operation_and_name (fst (modelOperation_units st ext this modelOperation)) =
     concat (map (\<lambda>(operation, verb).
                    if truthy operation then [(the operation, mo_model modelOperation @ verb)]
                    else [])
       [(mo_findUnique modelOperation, ''FindUnique''),
        (mo_findFirst modelOperation, ''FindFirst''),
        (mo_findMany modelOperation, ''FindMany''),
        (mo_createOne modelOperation, ''CreateOne''),
        (mo_createMany modelOperation, ''CreateMany''),
        (mo_deleteOne modelOperation, ''DeleteOne''),
        (mo_deleteMany modelOperation, ''DeleteMany''),
        (mo_updateOne modelOperation, ''UpdateOne''),
        (mo_updateMany modelOperation, ''UpdateMany''),
        (mo_upsertOne modelOperation, ''Upsert''),
        (mo_aggregate modelOperation, ''Aggregate''),
        (mo_groupBy modelOperation, ''GroupBy'')])"
    and "snd (modelOperation_units st ext this modelOperation) = None"
proof -
  let ?M = "mo_model modelOperation"
  let ?si = "resolveSelectIncludeImportAndZodSchemaLine st ext m"
  let ?ob = "resolveOrderByWithRelationImportAndZodSchemaLine st m"
  let ?before =
    "when_truthy (mo_findUnique modelOperation) (findUnique_unit st ?M ?si)
     @ when_truthy (mo_findFirst modelOperation) (findFirst_unit st ?M ?si ?ob)
     @ when_truthy (mo_findMany modelOperation) (findMany_unit st ?M ?si ?ob)
     @ when_truthy (mo_createOne modelOperation) (createOne_unit st ?M ?si)
     @ when_truthy (mo_createMany modelOperation) (createMany_unit st ?M)
     @ when_truthy (mo_deleteOne modelOperation) (deleteOne_unit st ?M ?si)
     @ when_truthy (mo_deleteMany modelOperation) (deleteMany_unit st ?M ?si)
     @ when_truthy (mo_updateOne modelOperation) (updateOne_unit st ?M ?si)
     @ when_truthy (mo_updateMany modelOperation) (updateMany_unit st ?M ?si)
     @ when_truthy (mo_upsertOne modelOperation) (upsertOne_unit st ?M ?si)"
  let ?after = "when_truthy (mo_groupBy modelOperation) (groupBy_unit st ?M ?si)"
  have before: "map operation_and_name ?before =
     concat (map (\<lambda>(operation, verb).
                    if truthy operation then [(the operation, ?M @ verb)] else [])
       [(mo_findUnique modelOperation, ''FindUnique''),
        (mo_findFirst modelOperation, ''FindFirst''),
        (mo_findMany modelOperation, ''FindMany''),
        (mo_createOne modelOperation, ''CreateOne''),
        (mo_createMany modelOperation, ''CreateMany''),
        (mo_deleteOne modelOperation, ''DeleteOne''),
        (mo_deleteMany modelOperation, ''DeleteMany''),
        (mo_updateOne modelOperation, ''UpdateOne''),
        (mo_updateMany modelOperation, ''UpdateMany''),
        (mo_upsertOne modelOperation, ''Upsert'')])"
    by (simp add: map_when_truthy operation_and_name_units split del: if_split cong: if_cong)
  have after: "map operation_and_name ?after =
     (if truthy (mo_groupBy modelOperation)
      then [(the (mo_groupBy modelOperation), ?M @ ''GroupBy'')] else [])"
    by (simp add: map_when_truthy operation_and_name_units split del: if_split cong: if_cong)
  show "map operation_and_name (fst (modelOperation_units st ext this modelOperation)) =
     concat (map (\<lambda>(operation, verb).
                    if truthy operation then [(the operation, ?M @ verb)] else [])
       [(mo_findUnique modelOperation, ''FindUnique''),
        (mo_findFirst modelOperation, ''FindFirst''),
        (mo_findMany modelOperation, ''FindMany''),
        (mo_createOne modelOperation, ''CreateOne''),
        (mo_createMany modelOperation, ''CreateMany''),
        (mo_deleteOne modelOperation, ''DeleteOne''),
        (mo_deleteMany modelOperation, ''DeleteMany''),
        (mo_updateOne modelOperation, ''UpdateOne''),
        (mo_updateMany modelOperation, ''UpdateMany''),
        (mo_upsertOne modelOperation, ''Upsert''),
        (mo_aggregate modelOperation, ''Aggregate''),
        (mo_groupBy modelOperation, ''GroupBy'')])"
  proof (cases "truthy (mo_aggregate modelOperation)")
    case False
    have "fst (modelOperation_units st ext this modelOperation) = ?before @ ?after"
      using found False by (simp add: modelOperation_units_def Let_def)
    then have "map operation_and_name (fst (modelOperation_units st ext this modelOperation)) =
        map operation_and_name ?before @ map operation_and_name ?after"
      by (simp only: map_append)
    with False show ?thesis
      unfolding before after by (simp split del: if_split cong: if_cong)
  next
    case True
    with support obtain sup where
      "map_of (t_aggregateOperationSupport this) ?M = Some sup" by auto
    from aggregate_unit_Inr [OF this, of st ?ob "the (mo_aggregate modelOperation)"]
    obtain u where u: "aggregate_unit st this ?M ?ob (the (mo_aggregate modelOperation)) = Inr u"
      by auto
    have "fst (modelOperation_units st ext this modelOperation) = ?before @ [u] @ ?after"
      using found True u by (simp add: modelOperation_units_def Let_def)
    then have "map operation_and_name (fst (modelOperation_units st ext this modelOperation)) =
        map operation_and_name ?before @ [operation_and_name u] @ map operation_and_name ?after"
      by (simp only: map_append list.map)
    with True operation_and_name_aggregate [OF u] show ?thesis
      unfolding before after by (simp split del: if_split cong: if_cong)
  qed
  show "snd (modelOperation_units st ext this modelOperation) = None"
  proof (cases "truthy (mo_aggregate modelOperation)")
    case False
    with found show ?thesis by (simp add: modelOperation_units_def Let_def)
  next
    case True
    with support obtain sup where
      "map_of (t_aggregateOperationSupport this) ?M = Some sup" by auto
    from aggregate_unit_Inr [OF this, of st ?ob "the (mo_aggregate modelOperation)"]
    obtain u where u: "aggregate_unit st this ?M ?ob (the (mo_aggregate modelOperation)) = Inr u"
      by auto
    with found True show ?thesis by (simp add: modelOperation_units_def Let_def)
  qed
qed

lemma write_unit_path_and_export:
  "write_unit st u =
     (path_join [getSchemasPath st, fst (operation_and_name u) @ ''.schema.ts''],
      generateImportStatements (fst (snd u))
      @ ''export const '' @ snd (operation_and_name u) @ ''Schema = '' @ snd (snd (snd u)))"
  by (cases u) (simp add: write_unit_def operation_and_name_def generateExportSchemaStatement_def)

lemma foldl_reduce_name:
  "t_name (snd (foldl (reduce_step field n) (res, this) its)) = t_name this"
proof (induction its arbitrary: res this)
  case Nil
  show ?case by simp
next
  case (Cons it its)
  obtain r1 t1 where st: "reduce_step field n (res, this) it = (r1, t1)"
    by (cases "reduce_step field n (res, this) it")
  with reduce_step_name [of field n res this it] Cons.IH [of r1 t1] show ?case by simp
qed

lemma generateObjectSchemaField_name:
  "t_name (snd (generateObjectSchemaField this field)) = t_name this"
proof (cases "foldl (reduce_step field (length (arg_inputTypes field))) ([], this)
                (arg_inputTypes field)")
  case (Pair alts t1)
  with foldl_reduce_name [of field "length (arg_inputTypes field)" "[]" this
      "arg_inputTypes field"]
  show ?thesis
    by (simp add: generateObjectSchemaField_def Let_def)
qed

lemma map_generateObjectSchemaField_name:
  "t_name (snd (map_generateObjectSchemaField this fs)) = t_name this"
proof (induction fs arbitrary: this)
  case Nil
  show ?case by simp
next
  case (Cons f fs)
  obtain i1 t1 where st: "generateObjectSchemaField this f = (i1, t1)"
    by (cases "generateObjectSchemaField this f")
  obtain is2 t2 where st2: "map_generateObjectSchemaField t1 fs = (is2, t2)"
    by (cases "map_generateObjectSchemaField t1 fs")
  from generateObjectSchemaField_name [of this f] st have "t_name t1 = t_name this" by simp
  moreover from Cons.IH [of t1] st2 have "t_name t2 = t_name t1" by simp
  ultimately show ?case using st st2 by simp
qed

lemma generateObjectSchemaFields_name:
  "t_name (snd (generateObjectSchemaFields this)) = t_name this"
proof (cases "map_generateObjectSchemaField this (t_fields this)")
  case (Pair items t1)
  with map_generateObjectSchemaField_name [of this "t_fields this"] show ?thesis
    by (simp add: generateObjectSchemaFields_def)
qed

lemma generateObjectSchema_plain:
  assumes "\<not> isMongodbRawOp ext (t_name this)"
  shows "fst (generateObjectSchema st ext this) =
     (let this' = snd (generateObjectSchemaFields this);
          zodObjectSchemaFields = fst (generateObjectSchemaFields this);
          name = (if isAggregateInputType ext (t_name this) then t_name this @ ''Type''
                  else t_name this)
      in Inr (path_join [getSchemasPath st, ''objects/'' @ t_name this @ ''.schema.ts''],
              generateObjectSchemaImportStatements st this'
              @ generateImportPrismaStatement st ext None
              @ generateJsonSchemaImplementation this'
              @ (if isPrismaTypeAvailable name \<or> hasComplexRelations this'
                 then ''const Schema: z.ZodType<Prisma.'' @ name @ ''> = ''
                 else ''const Schema = '')
              @ addFinalWrappers zodObjectSchemaFields @ '';\<newline>\<newline> ''
              @ ''export const '' @ t_name this @ ''ObjectSchema = Schema'' @ ''\<newline>''))"
proof (cases "generateObjectSchemaFields this")
  case (Pair zodObjectSchemaFields this')
  from generateObjectSchemaFields_name [of this] Pair
  have nm: "t_name this' = t_name this" by simp
  from assms Pair nm show ?thesis
    by (simp add: generateObjectSchema_def prepareObjectSchema_def
        generateExportObjectSchemaStatement_def resolveObjectSchemaName_def Let_def)
qed

text \<open>
  Claim C8, as stated, fails on the code.  The file of an operation schema is named after
  the operation name that the model mapping gives (\<^verbatim>\<open>findManyUser\<close> for the bulk
  fetch of users), not after the model name followed by the verb; only the exported name
  is built from the model name and the verb.  So the file path and the exported name do
  not follow the same rule.
\<close>

theorem C8_operation_path_counterexample:
  "map fst (fst (generateModelSchemas ex_statics ex_externals (ex_transformer [] []))) =
     [''generated/schemas/findUniqueUser.schema.ts'',
      ''generated/schemas/findManyUser.schema.ts'',
      ''generated/schemas/createManyUser.schema.ts'']
   \<and> ''generated/schemas/UserFindMany.schema.ts''
        \<notin> set (map fst (fst (generateModelSchemas ex_statics ex_externals
                                 (ex_transformer [] []))))
   \<and> map operation_and_name
         (fst (generateModelSchemas_units ex_statics ex_externals (ex_transformer [] [])
                 (t_modelOperations (ex_transformer [] [])))) =
       [(''findUniqueUser'', ''UserFindUnique''),
        (''findManyUser'', ''UserFindMany''),
        (''createManyUser'', ''UserCreateMany'')]"
proof -
  have found: "findModelByName (t_models (ex_transformer [] [])) (mo_model ex_mapping) =
      Some ex_User"
    by (simp add: findModelByName_def ex_transformer_def ex_mapping_def ex_User_def)
  have support: "truthy (mo_aggregate ex_mapping) \<longrightarrow>
      map_of (t_aggregateOperationSupport (ex_transformer [] [])) (mo_model ex_mapping) \<noteq> None"
    by (simp add: truthy_def ex_mapping_def)
  have names: "map operation_and_name
      (fst (modelOperation_units ex_statics ex_externals (ex_transformer [] []) ex_mapping)) =
      [(''findUniqueUser'', ''UserFindUnique''),
       (''findManyUser'', ''UserFindMany''),
       (''createManyUser'', ''UserCreateMany'')]"
    unfolding modelOperation_units_names(1) [OF found support]
    by (simp add: ex_mapping_def truthy_def)
  have none: "snd (modelOperation_units ex_statics ex_externals (ex_transformer [] [])
      ex_mapping) = None"
    by (rule modelOperation_units_names(2) [OF found support])
  obtain us where us: "modelOperation_units ex_statics ex_externals (ex_transformer [] [])
      ex_mapping = (us, None)"
    using none by (cases "modelOperation_units ex_statics ex_externals (ex_transformer [] [])
      ex_mapping") simp
  have ops: "t_modelOperations (ex_transformer [] []) = [ex_mapping]"
    by (simp add: ex_transformer_def)
  have units: "generateModelSchemas_units ex_statics ex_externals (ex_transformer [] [])
      [ex_mapping] = (us, None)"
    using us by simp
  have names': "map operation_and_name us =
      [(''findUniqueUser'', ''UserFindUnique''),
       (''findManyUser'', ''UserFindMany''),
       (''createManyUser'', ''UserCreateMany'')]"
    using names us by simp
  have schemas: "getSchemasPath ex_statics = ''generated/schemas''"
    by (simp add: getSchemasPath_def ex_statics_def path_normalize_def normalizeString_def
        normalize_step_def path_join_def Let_def)
  have "map fst (map (write_unit ex_statics) us) =
      map (\<lambda>p. path_join [''generated/schemas'', fst p @ ''.schema.ts''])
        (map operation_and_name us)"
    by (simp add: write_unit_path_and_export schemas comp_def)
  then have paths: "map fst (map (write_unit ex_statics) us) =
     [''generated/schemas/findUniqueUser.schema.ts'',
      ''generated/schemas/findManyUser.schema.ts'',
      ''generated/schemas/createManyUser.schema.ts'']"
    unfolding names'
    by (simp add: path_join_def path_normalize_def normalizeString_def normalize_step_def)
  show ?thesis
    using paths names' units ops by (simp add: generateModelSchemas_def)
qed

text \<open>
  Claim C8, amended.  An enum schema is written to \<^verbatim>\<open>enums/<EnumName>.schema.ts\<close>
  under the schemas directory and exports \<^verbatim>\<open><EnumName>Schema\<close>.  The object schema of
  a composite that is not a raw operation is written to
  \<^verbatim>\<open>objects/<TypeName>.schema.ts\<close> and its single export is
  \<^verbatim>\<open><TypeName>ObjectSchema\<close>.  An operation schema is written to
  \<^verbatim>\<open><operation>.schema.ts\<close>, where the operation is the name that the model mapping
  gives for it, and exports \<^verbatim>\<open><ModelName><Verb>Schema\<close>; the verbs are FindUnique,
  FindFirst, FindMany, CreateOne, CreateMany, DeleteOne, DeleteMany, UpdateOne,
  UpdateMany, Upsert, Aggregate and GroupBy, and the schemas of a model are those of the
  operations that its mapping names, in this order.
\<close>

theorem C8_unit_paths_and_names:
  "generateEnumSchemas st this =
     map (\<lambda>enumType.
            (path_join [getSchemasPath st, ''enums/'' @ en_name enumType @ ''.schema.ts''],
             generateImportZodStatement @ ''\<newline>''
             @ ''export const '' @ en_name enumType @ ''Schema = ''
             @ ''z.enum('' @ JSON_stringify (en_values enumType) @ '')''))
       (t_enumTypes this)
   \<and> (\<not> isMongodbRawOp ext (t_name this) \<longrightarrow>
        fst (generateObjectSchema st ext this) =
          (let this' = snd (generateObjectSchemaFields this);
               zodObjectSchemaFields = fst (generateObjectSchemaFields this);
               name = (if isAggregateInputType ext (t_name this) then t_name this @ ''Type''
                       else t_name this)
           in Inr (path_join [getSchemasPath st, ''objects/'' @ t_name this @ ''.schema.ts''],
                   generateObjectSchemaImportStatements st this'
                   @ generateImportPrismaStatement st ext None
                   @ generateJsonSchemaImplementation this'
                   @ (if isPrismaTypeAvailable name \<or> hasComplexRelations this'
                      then ''const Schema: z.ZodType<Prisma.'' @ name @ ''> = ''
                      else ''const Schema = '')
                   @ addFinalWrappers zodObjectSchemaFields @ '';\<newline>\<newline> ''
                   @ ''export const '' @ t_name this @ ''ObjectSchema = Schema''
                   @ ''\<newline>'')))
   \<and> fst (generateModelSchemas st ext this) =
       map (\<lambda>u. (path_join [getSchemasPath st, fst (operation_and_name u) @ ''.schema.ts''],
                  generateImportStatements (fst (snd u))
                  @ ''export const '' @ snd (operation_and_name u) @ ''Schema = ''
                  @ snd (snd (snd u))))
         (fst (generateModelSchemas_units st ext this (t_modelOperations this)))
   \<and> (findModelByName (t_models this) (mo_model modelOperation) = Some m
        \<and> (truthy (mo_aggregate modelOperation) \<longrightarrow>
             map_of (t_aggregateOperationSupport this) (mo_model modelOperation) \<noteq> None) \<longrightarrow>
        map operation_and_name (fst (modelOperation_units st ext this modelOperation)) =
          concat (map (\<lambda>(operation, verb).
                         if truthy operation
                         then [(the operation, mo_model modelOperation @ verb)] else [])
            [(mo_findUnique modelOperation, ''FindUnique''),
             (mo_findFirst modelOperation, ''FindFirst''),
             (mo_findMany modelOperation, ''FindMany''),
             (mo_createOne modelOperation, ''CreateOne''),
             (mo_createMany modelOperation, ''CreateMany''),
             (mo_deleteOne modelOperation, ''DeleteOne''),
             (mo_deleteMany modelOperation, ''DeleteMany''),
             (mo_updateOne modelOperation, ''UpdateOne''),
             (mo_updateMany modelOperation, ''UpdateMany''),
             (mo_upsertOne modelOperation, ''Upsert''),
             (mo_aggregate modelOperation, ''Aggregate''),
             (mo_groupBy modelOperation, ''GroupBy'')]))"
proof (intro conjI impI)
  show "generateEnumSchemas st this =
     map (\<lambda>enumType.
            (path_join [getSchemasPath st, ''enums/'' @ en_name enumType @ ''.schema.ts''],
             generateImportZodStatement @ ''\<newline>''
             @ ''export const '' @ en_name enumType @ ''Schema = ''
             @ ''z.enum('' @ JSON_stringify (en_values enumType) @ '')''))
       (t_enumTypes this)"
    by (simp add: generateEnumSchemas_def generateExportSchemaStatement_def)
next
  assume "\<not> isMongodbRawOp ext (t_name this)"
  then show "fst (generateObjectSchema st ext this) =
          (let this' = snd (generateObjectSchemaFields this);
               zodObjectSchemaFields = fst (generateObjectSchemaFields this);
               name = (if isAggregateInputType ext (t_name this) then t_name this @ ''Type''
                       else t_name this)
           in Inr (path_join [getSchemasPath st, ''objects/'' @ t_name this @ ''.schema.ts''],
                   generateObjectSchemaImportStatements st this'
                   @ generateImportPrismaStatement st ext None
                   @ generateJsonSchemaImplementation this'
                   @ (if isPrismaTypeAvailable name \<or> hasComplexRelations this'
                      then ''const Schema: z.ZodType<Prisma.'' @ name @ ''> = ''
                      else ''const Schema = '')
                   @ addFinalWrappers zodObjectSchemaFields @ '';\<newline>\<newline> ''
                   @ ''export const '' @ t_name this @ ''ObjectSchema = Schema''
                   @ ''\<newline>''))"
    by (rule generateObjectSchema_plain)
next
  show "fst (generateModelSchemas st ext this) =
       map (\<lambda>u. (path_join [getSchemasPath st, fst (operation_and_name u) @ ''.schema.ts''],
                  generateImportStatements (fst (snd u))
                  @ ''export const '' @ snd (operation_and_name u) @ ''Schema = ''
                  @ snd (snd (snd u))))
         (fst (generateModelSchemas_units st ext this (t_modelOperations this)))"
    by (cases "generateModelSchemas_units st ext this (t_modelOperations this)")
       (simp add: generateModelSchemas_def write_unit_path_and_export)
next
  assume "findModelByName (t_models this) (mo_model modelOperation) = Some m
        \<and> (truthy (mo_aggregate modelOperation) \<longrightarrow>
             map_of (t_aggregateOperationSupport this) (mo_model modelOperation) \<noteq> None)"
  then have found: "findModelByName (t_models this) (mo_model modelOperation) = Some m"
    and support: "truthy (mo_aggregate modelOperation) \<longrightarrow>
             map_of (t_aggregateOperationSupport this) (mo_model modelOperation) \<noteq> None"
    by simp_all
  show "map operation_and_name (fst (modelOperation_units st ext this modelOperation)) =
          concat (map (\<lambda>(operation, verb).
                         if truthy operation
                         then [(the operation, mo_model modelOperation @ verb)] else [])
            [(mo_findUnique modelOperation, ''FindUnique''),
             (mo_findFirst modelOperation, ''FindFirst''),
             (mo_findMany modelOperation, ''FindMany''),
             (mo_createOne modelOperation, ''CreateOne''),
             (mo_createMany modelOperation, ''CreateMany''),
             (mo_deleteOne modelOperation, ''DeleteOne''),
             (mo_deleteMany modelOperation, ''DeleteMany''),
             (mo_updateOne modelOperation, ''UpdateOne''),
             (mo_updateMany modelOperation, ''UpdateMany''),
             (mo_upsertOne modelOperation, ''Upsert''),
             (mo_aggregate modelOperation, ''Aggregate''),
             (mo_groupBy modelOperation, ''GroupBy'')])"
    by (rule modelOperation_units_names(1) [OF found support])
qed

text \<open>The enum \<^verbatim>\<open>Role\<close>, the object schema of \<^verbatim>\<open>UserCreateInput\<close> with its
  \<^verbatim>\<open>meta\<close> field, and the operations of the users.\<close>

theorem C8_unit_paths_and_names_witness:
  "generateEnumSchemas ex_statics (ex_transformer ''UserCreateInput'' [ex_meta]) =
     [(''generated/schemas/enums/Role.schema.ts'',
       ''import { z } from 'zod';\<newline>\<newline>export const RoleSchema = z.enum(['' @ dq @ ''USER''
       @ dq @ '','' @ dq @ ''ADMIN'' @ dq @ ''])'')]
   \<and> \<not> isMongodbRawOp ex_externals (t_name (ex_transformer ''UserCreateInput'' [ex_meta]))
   \<and> map_sum id fst
        (fst (generateObjectSchema ex_statics ex_externals
                (ex_transformer ''UserCreateInput'' [ex_meta]))) =
       Inr ''generated/schemas/objects/UserCreateInput.schema.ts''
   \<and> findModelByName (t_models (ex_transformer ''UserCreateInput'' [ex_meta]))
        (mo_model ex_mapping) = Some ex_User
   \<and> \<not> truthy (mo_aggregate ex_mapping)
   \<and> map operation_and_name
        (fst (modelOperation_units ex_statics ex_externals
                (ex_transformer ''UserCreateInput'' [ex_meta]) ex_mapping)) =
       [(''findUniqueUser'', ''UserFindUnique''),
        (''findManyUser'', ''UserFindMany''),
        (''createManyUser'', ''UserCreateMany'')]"
proof -
  have schemas: "getSchemasPath ex_statics = ''generated/schemas''"
    by (simp add: getSchemasPath_def ex_statics_def path_normalize_def normalizeString_def
        normalize_step_def path_join_def Let_def)
  have join: "path_join [''generated/schemas'', ''enums/Role.schema.ts''] =
        ''generated/schemas/enums/Role.schema.ts''"
      "path_join [''generated/schemas'', ''objects/UserCreateInput.schema.ts''] =
        ''generated/schemas/objects/UserCreateInput.schema.ts''"
    by (simp_all add: path_join_def path_normalize_def normalizeString_def normalize_step_def)
  have found: "findModelByName (t_models (ex_transformer ''UserCreateInput'' [ex_meta]))
        (mo_model ex_mapping) = Some ex_User"
    by (simp add: findModelByName_def ex_transformer_def ex_mapping_def ex_User_def)
  have agg: "\<not> truthy (mo_aggregate ex_mapping)"
    by (simp add: truthy_def ex_mapping_def)
  have raw: "\<not> isMongodbRawOp ex_externals (t_name (ex_transformer ''UserCreateInput'' [ex_meta]))"
    by (simp add: ex_externals_def)
  note C8 = C8_unit_paths_and_names
      [of ex_statics "ex_transformer ''UserCreateInput'' [ex_meta]" ex_externals ex_mapping
          ex_User]
  from C8 have enums: "generateEnumSchemas ex_statics (ex_transformer ''UserCreateInput'' [ex_meta]) =
     [(''generated/schemas/enums/Role.schema.ts'',
       ''import { z } from 'zod';\<newline>\<newline>export const RoleSchema = z.enum(['' @ dq @ ''USER''
       @ dq @ '','' @ dq @ ''ADMIN'' @ dq @ ''])'')]"
    by (simp add: schemas join ex_transformer_def generateImportZodStatement_def
        JSON_stringify_def json_string_def json_escape_char_def dq_def sq_def)
  from C8 raw have "map_sum id fst
        (fst (generateObjectSchema ex_statics ex_externals
                (ex_transformer ''UserCreateInput'' [ex_meta]))) =
       Inr (path_join [getSchemasPath ex_statics,
              ''objects/'' @ t_name (ex_transformer ''UserCreateInput'' [ex_meta])
              @ ''.schema.ts''])"
    by (simp add: Let_def)
  then have object: "map_sum id fst
        (fst (generateObjectSchema ex_statics ex_externals
                (ex_transformer ''UserCreateInput'' [ex_meta]))) =
       Inr ''generated/schemas/objects/UserCreateInput.schema.ts''"
    by (simp add: schemas join ex_transformer_def)
  from C8 found agg have "map operation_and_name
        (fst (modelOperation_units ex_statics ex_externals
                (ex_transformer ''UserCreateInput'' [ex_meta]) ex_mapping)) =
          concat (map (\<lambda>(operation, verb).
                         if truthy operation
                         then [(the operation, mo_model ex_mapping @ verb)] else [])
            [(mo_findUnique ex_mapping, ''FindUnique''),
             (mo_findFirst ex_mapping, ''FindFirst''),
             (mo_findMany ex_mapping, ''FindMany''),
             (mo_createOne ex_mapping, ''CreateOne''),
             (mo_createMany ex_mapping, ''CreateMany''),
             (mo_deleteOne ex_mapping, ''DeleteOne''),
             (mo_deleteMany ex_mapping, ''DeleteMany''),
             (mo_updateOne ex_mapping, ''UpdateOne''),
             (mo_updateMany ex_mapping, ''UpdateMany''),
             (mo_upsertOne ex_mapping, ''Upsert''),
             (mo_aggregate ex_mapping, ''Aggregate''),
             (mo_groupBy ex_mapping, ''GroupBy'')])"
    by simp
  then have names: "map operation_and_name
        (fst (modelOperation_units ex_statics ex_externals
                (ex_transformer ''UserCreateInput'' [ex_meta]) ex_mapping)) =
       [(''findUniqueUser'', ''UserFindUnique''),
        (''findManyUser'', ''UserFindMany''),
        (''createManyUser'', ''UserCreateMany'')]"
    by (simp add: ex_mapping_def truthy_def)
  from enums raw object found agg names show ?thesis by simp
qed

section \<open>Running the generation again\<close>

lemma covers_refl: "covers t t"
  by (simp add: covers_def)

lemma covers_trans: "covers a b \<Longrightarrow> covers b c \<Longrightarrow> covers a c"
  by (auto simp add: covers_def)

lemma hasJson_absorb: "t_hasJson s \<Longrightarrow> s\<lparr>t_hasJson := True\<rparr> = s"
  by (cases s) simp

lemma addSchemaImport_absorb: "n \<in> set (t_schemaImports s) \<Longrightarrow> addSchemaImport s n = s"
  by (simp add: addSchemaImport_def)

lemma addSchemaImport_covers: "covers (addSchemaImport t n) t"
  by (auto simp add: addSchemaImport_def covers_def)

lemma addSchemaImport_mem: "n \<in> set (t_schemaImports (addSchemaImport t n))"
  by (simp add: addSchemaImport_def)

lemma reduce_step_snd:
  "snd (reduce_step field n (res, t) it) =
     (if it_type it = ''Json'' then t\<lparr>t_hasJson := True\<rparr>
      else if it_type it \<notin> set recognized_scalars
              \<and> (it_namespace it = Some NsPrisma \<or> it_location it = EnumTypes)
              \<and> it_type it \<noteq> t_name t
           then addSchemaImport t (it_type it)
           else t)"
  by (simp add: reduce_step_def recognized_scalars_def Let_def)

lemma reduce_step_covers: "covers (snd (reduce_step field n (res, t) it)) t"
  unfolding reduce_step_snd
  by (simp add: addSchemaImport_covers covers_refl) (simp add: covers_def)

lemma reduce_step_stable:
  assumes "covers s (snd (reduce_step field n (res, t) it))"
  shows "snd (reduce_step field n (res', s) it) = s"
proof -
  from assms reduce_step_covers [of field n res t it] have st: "covers s t"
    by (rule covers_trans)
  then have nm: "t_name s = t_name t" by (simp add: covers_def)
  show ?thesis
  proof (cases "it_type it = ''Json''")
    case True
    with assms have "t_hasJson s" by (simp add: reduce_step_snd covers_def)
    with True show ?thesis by (simp add: reduce_step_snd hasJson_absorb)
  next
    case notJson: False
    show ?thesis
    proof (cases "it_type it \<notin> set recognized_scalars
              \<and> (it_namespace it = Some NsPrisma \<or> it_location it = EnumTypes)
              \<and> it_type it \<noteq> t_name t")
      case True
      with notJson assms have "covers s (addSchemaImport t (it_type it))"
        by (simp add: reduce_step_snd)
      with addSchemaImport_mem [of "it_type it" t]
      have "it_type it \<in> set (t_schemaImports s)" by (auto simp add: covers_def)
      with True notJson nm show ?thesis
        by (simp add: reduce_step_snd addSchemaImport_absorb)
    next
      case False
      with notJson nm show ?thesis by (auto simp add: reduce_step_snd)
    qed
  qed
qed

lemma foldl_reduce_covers: "covers (snd (foldl (reduce_step field n) (res, t) its)) t"
proof (induction its arbitrary: res t)
  case Nil
  show ?case by (simp add: covers_refl)
next
  case (Cons it its)
  obtain r1 t1 where st: "reduce_step field n (res, t) it = (r1, t1)"
    by (cases "reduce_step field n (res, t) it")
  from reduce_step_covers [of field n res t it] st have "covers t1 t" by simp
  with Cons.IH [of r1 t1] st show ?case by (auto intro: covers_trans)
qed

lemma foldl_reduce_stable:
  "covers s (snd (foldl (reduce_step field n) (res, t) its)) \<Longrightarrow>
   snd (foldl (reduce_step field n) (res', s) its) = s"
proof (induction its arbitrary: res t res')
  case Nil
  show ?case by simp
next
  case (Cons it its)
  obtain r1 t1 where st: "reduce_step field n (res, t) it = (r1, t1)"
    by (cases "reduce_step field n (res, t) it")
  from Cons.prems st have fin: "covers s (snd (foldl (reduce_step field n) (r1, t1) its))"
    by simp
  with foldl_reduce_covers [of field n r1 t1 its] have "covers s t1"
    by (blast intro: covers_trans)
  with st have "covers s (snd (reduce_step field n (res, t) it))" by simp
  from reduce_step_stable [OF this, of res']
  obtain r1' where st': "reduce_step field n (res', s) it = (r1', s)"
    by (cases "reduce_step field n (res', s) it") simp
  from Cons.IH [OF fin, of r1'] st' show ?case by simp
qed

lemma generateObjectSchemaField_snd:
  "snd (generateObjectSchemaField this field) =
     snd (foldl (reduce_step field (length (arg_inputTypes field))) ([], this)
            (arg_inputTypes field))"
proof (cases "foldl (reduce_step field (length (arg_inputTypes field))) ([], this)
                (arg_inputTypes field)")
  case (Pair alts t1)
  show ?thesis
  proof (cases "arg_inputTypes field = []")
    case True
    then show ?thesis by (simp add: generateObjectSchemaField_def)
  next
    case False
    with Pair show ?thesis by (simp add: generateObjectSchemaField_def Let_def)
  qed
qed

lemma generateObjectSchemaField_covers: "covers (snd (generateObjectSchemaField t field)) t"
  by (simp add: generateObjectSchemaField_snd foldl_reduce_covers)

lemma generateObjectSchemaField_stable:
  "covers s (snd (generateObjectSchemaField t field)) \<Longrightarrow>
   snd (generateObjectSchemaField s field) = s"
  by (simp add: generateObjectSchemaField_snd foldl_reduce_stable)

lemma generateObjectSchemaField_fst_cong:
  assumes "t_name a = t_name b"
  shows "fst (generateObjectSchemaField a field) = fst (generateObjectSchemaField b field)"
proof -
  have "resolved_alternatives a field = resolved_alternatives b field"
    using reduce_step_fst_cong [OF assms] by (simp add: resolved_alternatives_concat)
  then show ?thesis by (simp add: generateObjectSchemaField_fst)
qed

lemma map_generateObjectSchemaField_covers:
  "covers (snd (map_generateObjectSchemaField t fs)) t"
proof (induction fs arbitrary: t)
  case Nil
  show ?case by (simp add: covers_refl)
next
  case (Cons f fs)
  obtain i1 t1 where st: "generateObjectSchemaField t f = (i1, t1)"
    by (cases "generateObjectSchemaField t f")
  obtain is2 t2 where st2: "map_generateObjectSchemaField t1 fs = (is2, t2)"
    by (cases "map_generateObjectSchemaField t1 fs")
  from generateObjectSchemaField_covers [of t f] st have "covers t1 t" by simp
  moreover from Cons.IH [of t1] st2 have "covers t2 t1" by simp
  ultimately have "covers t2 t" by (auto intro: covers_trans)
  with st st2 show ?case by simp
qed

lemma map_generateObjectSchemaField_stable:
  "covers s (snd (map_generateObjectSchemaField t fs)) \<Longrightarrow>
   snd (map_generateObjectSchemaField s fs) = s"
proof (induction fs arbitrary: t)
  case Nil
  show ?case by simp
next
  case (Cons f fs)
  obtain i1 t1 where st: "generateObjectSchemaField t f = (i1, t1)"
    by (cases "generateObjectSchemaField t f")
  obtain is2 t2 where st2: "map_generateObjectSchemaField t1 fs = (is2, t2)"
    by (cases "map_generateObjectSchemaField t1 fs")
  from Cons.prems st st2 have fin: "covers s (snd (map_generateObjectSchemaField t1 fs))"
    by simp
  with map_generateObjectSchemaField_covers [of t1 fs] have "covers s t1"
    by (blast intro: covers_trans)
  with st have "covers s (snd (generateObjectSchemaField t f))" by simp
  from generateObjectSchemaField_stable [OF this]
  obtain i1' where st': "generateObjectSchemaField s f = (i1', s)"
    by (cases "generateObjectSchemaField s f") simp
  obtain is2' s2 where st2': "map_generateObjectSchemaField s fs = (is2', s2)"
    by (cases "map_generateObjectSchemaField s fs")
  from Cons.IH [OF fin] st2' have "s2 = s" by simp
  with st' st2' show ?case by simp
qed

lemma map_generateObjectSchemaField_fst_cong:
  "t_name a = t_name b \<Longrightarrow>
   fst (map_generateObjectSchemaField a fs) = fst (map_generateObjectSchemaField b fs)"
proof (induction fs arbitrary: a b)
  case Nil
  show ?case by simp
next
  case (Cons f fs)
  obtain ia a1 where sa: "generateObjectSchemaField a f = (ia, a1)"
    by (cases "generateObjectSchemaField a f")
  obtain ib b1 where sb: "generateObjectSchemaField b f = (ib, b1)"
    by (cases "generateObjectSchemaField b f")
  obtain isa a2 where sa2: "map_generateObjectSchemaField a1 fs = (isa, a2)"
    by (cases "map_generateObjectSchemaField a1 fs")
  obtain isb b2 where sb2: "map_generateObjectSchemaField b1 fs = (isb, b2)"
    by (cases "map_generateObjectSchemaField b1 fs")
  from generateObjectSchemaField_fst_cong [OF Cons.prems, of f] sa sb have "ia = ib" by simp
  moreover
  from generateObjectSchemaField_name [of a f] generateObjectSchemaField_name [of b f] sa sb
    Cons.prems
  have "t_name a1 = t_name b1" by simp
  from Cons.IH [OF this] sa2 sb2 have "isa = isb" by simp
  ultimately show ?case using sa sb sa2 sb2 by simp
qed

lemma generateObjectSchemaFields_again:
  "generateObjectSchemaFields (snd (generateObjectSchemaFields t)) =
     generateObjectSchemaFields t"
proof -
  obtain items s where run: "map_generateObjectSchemaField t (t_fields t) = (items, s)"
    by (cases "map_generateObjectSchemaField t (t_fields t)")
  from map_generateObjectSchemaField_covers [of t "t_fields t"] run have cov: "covers s t"
    by simp
  then have fs: "t_fields s = t_fields t" and nm: "t_name s = t_name t"
    by (simp_all add: covers_def)
  have "covers s (snd (map_generateObjectSchemaField t (t_fields t)))"
    using run by (simp add: covers_refl)
  from map_generateObjectSchemaField_stable [OF this]
  have stable: "snd (map_generateObjectSchemaField s (t_fields t)) = s" .
  from map_generateObjectSchemaField_fst_cong [OF nm, of "t_fields t"] run
  have same: "fst (map_generateObjectSchemaField s (t_fields t)) = items" by simp
  from stable same have "map_generateObjectSchemaField s (t_fields t) = (items, s)"
    by (cases "map_generateObjectSchemaField s (t_fields t)") simp
  with run fs show ?thesis by (simp add: generateObjectSchemaFields_def)
qed

lemma generateObjectSchemaFields_covers: "covers (snd (generateObjectSchemaFields t)) t"
proof (cases "map_generateObjectSchemaField t (t_fields t)")
  case (Pair items s)
  with map_generateObjectSchemaField_covers [of t "t_fields t"] show ?thesis
    by (simp add: generateObjectSchemaFields_def)
qed

lemma generateObjectSchema_snd:
  "snd (generateObjectSchema st ext t) = snd (generateObjectSchemaFields t)"
  by (cases "generateObjectSchemaFields t")
     (simp add: generateObjectSchema_def split: sum.splits)

lemma generateObjectSchema_again:
  "generateObjectSchema st ext (snd (generateObjectSchema st ext t)) =
     generateObjectSchema st ext t"
proof -
  obtain zodObjectSchemaFields s where run: "generateObjectSchemaFields t = (zodObjectSchemaFields, s)"
    by (cases "generateObjectSchemaFields t")
  from generateObjectSchemaFields_again [of t] run
  have again: "generateObjectSchemaFields s = (zodObjectSchemaFields, s)" by simp
  from run have "snd (generateObjectSchema st ext t) = s"
    by (simp add: generateObjectSchema_snd)
  with run again show ?thesis by (simp add: generateObjectSchema_def)
qed

lemma modelOperation_units_cong:
  assumes "t_models s = t_models t"
    and "t_aggregateOperationSupport s = t_aggregateOperationSupport t"
  shows "modelOperation_units st ext s modelOperation =
         modelOperation_units st ext t modelOperation"
  unfolding modelOperation_units_def aggregate_unit_def assms by (rule refl)

lemma generateModelSchemas_units_cong:
  assumes "t_models s = t_models t"
    and "t_aggregateOperationSupport s = t_aggregateOperationSupport t"
  shows "generateModelSchemas_units st ext s mos = generateModelSchemas_units st ext t mos"
  by (induction mos) (simp_all add: modelOperation_units_cong [OF assms])

text \<open>
  Claim C9.  The output is a function of the metadata and of the generation context, and a
  run leaves nothing behind that changes the next one: generating the object schema again
  on the instance as the first run left it (with the schema imports and the JSON flag the
  first run collected) writes the same file, or throws the same error, and leaves the
  instance unchanged; the enum schemas and the operation schemas that are generated after
  it are those that are generated before it.
\<close>

theorem C9_generation_deterministic:
  "generateObjectSchema st ext (snd (generateObjectSchema st ext this)) =
     generateObjectSchema st ext this
   \<and> generateEnumSchemas st (snd (generateObjectSchema st ext this)) =
       generateEnumSchemas st this
   \<and> generateModelSchemas st ext (snd (generateObjectSchema st ext this)) =
       generateModelSchemas st ext this"
proof (intro conjI)
  show "generateObjectSchema st ext (snd (generateObjectSchema st ext this)) =
     generateObjectSchema st ext this"
    by (rule generateObjectSchema_again)
next
  have cov: "covers (snd (generateObjectSchema st ext this)) this"
    by (simp add: generateObjectSchema_snd generateObjectSchemaFields_covers)
  then show "generateEnumSchemas st (snd (generateObjectSchema st ext this)) =
       generateEnumSchemas st this"
    by (simp add: generateEnumSchemas_def covers_def)
  from cov have m: "t_models (snd (generateObjectSchema st ext this)) = t_models this"
    and a: "t_aggregateOperationSupport (snd (generateObjectSchema st ext this)) =
            t_aggregateOperationSupport this"
    and o: "t_modelOperations (snd (generateObjectSchema st ext this)) =
            t_modelOperations this"
    by (simp_all add: covers_def)
  show "generateModelSchemas st ext (snd (generateObjectSchema st ext this)) =
       generateModelSchemas st ext this"
    by (simp add: generateModelSchemas_def o generateModelSchemas_units_cong [OF m a])
qed


end
